theory Spec2Isabelle
  imports Main "HOL-Library.AList"
begin

section \<open>Python values and exceptions\<close>

text \<open>
  The modules handle decoded JSON bodies and build the result record out of strings,
  booleans, lists and dictionaries. One datatype covers them all: \<open>PNone\<close> is Python's
  \<open>None\<close>, a dictionary is an association list in insertion order whose keys are values
  themselves (the status summary is keyed by whatever the device sent as a status).
  Numbers are integers: floating point numbers are left out of the model. Strings are
  ASCII.
\<close>

datatype pyval =
    PNone
  | PBool bool
  | PInt int
  | PStr string
  | PList "pyval list"
  | PDict "(pyval \<times> pyval) list"

datatype py_exception =
    KeyError pyval
  | TypeError
  | AttributeError
  | IndexError
  | NameError
  | UnboundLocalError
  | OtherException string

text \<open>
  How a module invocation ends: \<open>module.exit_json(**result)\<close> or
  \<open>module.fail_json(msg=...)\<close>. Both raise \<open>SystemExit\<close>, which no
  \<open>except Exception\<close> clause catches.
\<close>

datatype outcome =
    ExitJson "(string \<times> pyval) list"
  | FailJson string

text \<open>
  The result of evaluating a piece of Python: a value, a raised exception (caught by the
  next enclosing \<open>except Exception\<close>), or the end of the invocation.
\<close>

datatype 'a res =
    Ok 'a
  | Raise py_exception
  | Stop outcome

definition bind_res :: "'a res \<Rightarrow> ('a \<Rightarrow> 'b res) \<Rightarrow> 'b res" where
  "bind_res r f = (case r of Ok x \<Rightarrow> f x | Raise e \<Rightarrow> Raise e | Stop out \<Rightarrow> Stop out)"

text \<open>\<open>try: r except Exception: h\<close>\<close>

definition try_except :: "'a res \<Rightarrow> 'a res \<Rightarrow> 'a res" where
  "try_except r h = (case r of Ok x \<Rightarrow> Ok x | Raise e \<Rightarrow> h | Stop out \<Rightarrow> Stop out)"

subsection \<open>Dictionaries\<close>

text \<open>
  Python compares dictionary keys with \<open>==\<close> and \<open>hash\<close>: \<open>True\<close> and \<open>1\<close> are the
  same key, as are \<open>False\<close> and \<open>0\<close>. Lists and dictionaries are not hashable.
\<close>

fun key_norm :: "pyval \<Rightarrow> pyval" where
  "key_norm (PBool b) = PInt (if b then 1 else 0)"
| "key_norm v = v"

fun hashable :: "pyval \<Rightarrow> bool" where
  "hashable (PList _) = False"
| "hashable (PDict _) = False"
| "hashable _ = True"

fun dict_lookup :: "(pyval \<times> 'v) list \<Rightarrow> pyval \<Rightarrow> 'v option" where
  "dict_lookup [] k = None"
| "dict_lookup ((a, v) # kvs) k =
     (if key_norm a = key_norm k then Some v else dict_lookup kvs k)"

text \<open>\<open>d[k] = v\<close>: an existing key keeps its place (and its key object), a new one goes last.\<close>

fun dict_store :: "pyval \<Rightarrow> 'v \<Rightarrow> (pyval \<times> 'v) list \<Rightarrow> (pyval \<times> 'v) list" where
  "dict_store k v [] = [(k, v)]"
| "dict_store k v ((a, w) # kvs) =
     (if key_norm a = key_norm k then (a, v) # kvs else (a, w) # dict_store k v kvs)"

text \<open>
  \<open>x[k]\<close> for a string key \<open>k\<close>: only a dictionary can be subscripted by a string; a
  missing key is a \<open>KeyError\<close>, any other receiver a \<open>TypeError\<close>.
\<close>

fun subscript :: "pyval \<Rightarrow> string \<Rightarrow> pyval res" where
  "subscript (PDict kvs) k =
     (case dict_lookup kvs (PStr k) of None \<Rightarrow> Raise (KeyError (PStr k)) | Some v \<Rightarrow> Ok v)"
| "subscript _ k = Raise TypeError"

fun isinstance_dict :: "pyval \<Rightarrow> bool" where
  "isinstance_dict (PDict _) = True"
| "isinstance_dict _ = False"

fun isinstance_list :: "pyval \<Rightarrow> bool" where
  "isinstance_list (PList _) = True"
| "isinstance_list _ = False"

section \<open>idg\_domain\_config: get\_status\_summary\<close>

text \<open>
  \<^verbatim>\<open>
  def get_status_summary(list_dict):
      s = {}
      for i in list_dict:
          if i['status'] not in s.keys():
              s.update({i['status']: 1})
          else:
              s[i['status']] += 1
      return s
  \<close>
  The loop, with the dictionary \<open>s\<close> as accumulator. Looking a status up in
  \<open>s.keys()\<close> hashes it, so an unhashable status raises \<open>TypeError\<close>.
\<close>

fun get_status_summary_loop :: "(pyval \<times> int) list \<Rightarrow> pyval list \<Rightarrow> (pyval \<times> int) list res" where
  "get_status_summary_loop s [] = Ok s"
| "get_status_summary_loop s (i # rest) =
     (case subscript i ''status'' of
        Raise e \<Rightarrow> Raise e
      | Stop out \<Rightarrow> Stop out
      | Ok st \<Rightarrow>
          if \<not> hashable st then Raise TypeError
          else (case dict_lookup s st of
                  None \<Rightarrow> get_status_summary_loop (s @ [(st, 1)]) rest
                | Some n \<Rightarrow> get_status_summary_loop (dict_store st (n + 1) s) rest))"

definition get_status_summary :: "pyval list \<Rightarrow> (pyval \<times> int) list res" where
  "get_status_summary list_dict = get_status_summary_loop [] list_dict"

text \<open>The entries of a list whose status is the key \<open>k\<close> (as Python compares keys).\<close>

definition has_status :: "pyval \<Rightarrow> pyval \<Rightarrow> bool" where
  "has_status k i =
     (case subscript i ''status'' of Ok st \<Rightarrow> key_norm st = key_norm k | _ \<Rightarrow> False)"

definition count_status :: "pyval \<Rightarrow> pyval list \<Rightarrow> int" where
  "count_status k xs = int (length (filter (has_status k) xs))"

text \<open>An entry object carrying a status attribute that can serve as a dictionary key.\<close>

definition carries_status :: "pyval \<Rightarrow> bool" where
  "carries_status i = (case subscript i ''status'' of Ok st \<Rightarrow> hashable st | _ \<Rightarrow> False)"

text \<open>What the loop adds to the counts it starts from.\<close>

definition add_count :: "int option \<Rightarrow> int \<Rightarrow> int option" where
  "add_count old c =
     (case old of None \<Rightarrow> (if c = 0 then None else Some c) | Some n \<Rightarrow> Some (n + c))"

section \<open>Strings\<close>

text \<open>\<open>str.capitalize()\<close> on ASCII: first character upper case, the rest lower case.\<close>

definition ascii_upper :: "char \<Rightarrow> char" where
  "ascii_upper c =
     (let n = (of_char c :: nat) in if 97 \<le> n \<and> n \<le> 122 then char_of (n - 32) else c)"

definition ascii_lower :: "char \<Rightarrow> char" where
  "ascii_lower c =
     (let n = (of_char c :: nat) in if 65 \<le> n \<and> n \<le> 90 then char_of (n + 32) else c)"

fun str_capitalize :: "string \<Rightarrow> string" where
  "str_capitalize [] = []"
| "str_capitalize (c # cs) = ascii_upper c # map ascii_lower cs"

text \<open>\<open>v.capitalize()\<close> on a value: anything but a string has no such method.\<close>

fun capitalize :: "pyval \<Rightarrow> pyval res" where
  "capitalize (PStr s) = Ok (PStr (str_capitalize s))"
| "capitalize _ = Raise AttributeError"

text \<open>\<open>needle in hay\<close> for two strings: \<open>needle\<close> occurs in \<open>hay\<close> as a contiguous run.\<close>

fun is_substring :: "string \<Rightarrow> string \<Rightarrow> bool" where
  "is_substring needle [] = (needle = [])"
| "is_substring needle (c # cs) =
     (take (length needle) (c # cs) = needle \<or> is_substring needle cs)"

text \<open>
  \<open>needle in x\<close> for a string \<open>needle\<close> and any value \<open>x\<close>: substring test on a string,
  membership in a list, key membership in a dictionary, \<open>TypeError\<close> otherwise.
\<close>

fun py_in :: "string \<Rightarrow> pyval \<Rightarrow> bool res" where
  "py_in needle (PStr s) = Ok (is_substring needle s)"
| "py_in needle (PList xs) = Ok (PStr needle \<in> set xs)"
| "py_in needle (PDict kvs) = Ok (dict_lookup kvs (PStr needle) \<noteq> None)"
| "py_in needle _ = Raise TypeError"

text \<open>\<open>a + b\<close> where \<open>a\<close> is a string: \<open>b\<close> must be a string too.\<close>

fun str_add :: "string \<Rightarrow> pyval \<Rightarrow> string res" where
  "str_add a (PStr b) = Ok (a @ b)"
| "str_add a _ = Raise TypeError"

text \<open>Iterating a value: a list gives its members, a dictionary its keys, a string its characters.\<close>

fun iterate :: "pyval \<Rightarrow> pyval list res" where
  "iterate (PList xs) = Ok xs"
| "iterate (PDict kvs) = Ok (map fst kvs)"
| "iterate (PStr s) = Ok (map (\<lambda>c. PStr [c]) s)"
| "iterate _ = Raise TypeError"

fun map_res :: "('a \<Rightarrow> 'b res) \<Rightarrow> 'a list \<Rightarrow> 'b list res" where
  "map_res f [] = Ok []"
| "map_res f (x # xs) =
     bind_res (f x) (\<lambda>y. bind_res (map_res f xs) (\<lambda>ys. Ok (y # ys)))"

text \<open>\<open>str(n)\<close> for an integer.\<close>

fun str_nat :: "nat \<Rightarrow> string" where
  "str_nat n =
     (if n < 10 then [char_of (48 + n)] else str_nat (n div 10) @ [char_of (48 + n mod 10)])"

definition str_int :: "int \<Rightarrow> string" where
  "str_int i = (if i < 0 then CHR ''-'' # str_nat (nat (- i)) else str_nat (nat i))"

text \<open>\<open>filename.rsplit('/', 1)[1]\<close>: what follows the last slash; \<open>IndexError\<close> without a slash.\<close>

definition rsplit_slash_1 :: "string \<Rightarrow> string res" where
  "rsplit_slash_1 f =
     (if CHR ''/'' \<in> set f then Ok (rev (takeWhile (\<lambda>c. c \<noteq> CHR ''/'') (rev f)))
      else Raise IndexError)"

text \<open>\<open>filename.replace(" ", "%20")\<close>\<close>

definition replace_spaces :: "string \<Rightarrow> string" where
  "replace_spaces f = concat (map (\<lambda>c. if c = CHR '' '' then ''%20'' else [c]) f)"

section \<open>The device and the utility modules\<close>

text \<open>
  The modules import \<open>result\<close>, \<open>IDGUtils\<close>, \<open>IDGApi\<close> and \<open>ErrorHandler\<close> from utility
  modules, and \<open>to_native\<close>, \<open>json.dumps\<close> and \<open>str.format\<close> from libraries. They are the
  environment of an invocation: the message and URI constants, the helper functions, the
  shared \<open>result\<close> record as it is when \<open>main\<close> starts, and the device behind
  \<open>api_call\<close> and \<open>wait_for_action_end\<close>, whose answer may depend on every call made so far.
  A helper that returns gives a value; one that raises or ends the invocation (as
  \<open>implement_check_mode\<close> does in check mode) gives \<open>Raise\<close> or \<open>Stop\<close>.
  Parsing and validating the module parameters, the check that the utility modules could
  be imported and the set-up of the connection come before the first call to the device
  and are not part of the model: \<open>main\<close> starts from the parsed parameters.
\<close>

datatype http_method = GET | POST | PUT

datatype call =
    ApiCall pyval http_method "pyval option"
  | WaitForActionEnd string pyval string

record response =
  resp_code :: int
  resp_msg :: string
  resp_data :: pyval

record env =
  api_call :: "call list \<Rightarrow> pyval \<Rightarrow> http_method \<Rightarrow> pyval option \<Rightarrow> response res"
  wait_for_action_end :: "call list \<Rightarrow> string \<Rightarrow> pyval \<Rightarrow> string \<Rightarrow> pyval res"
  status_text :: "pyval \<Rightarrow> pyval res"
  implement_check_mode :: "(string \<times> pyval) list \<Rightarrow> unit res"
  ErrorHandler_str :: "pyval \<Rightarrow> string"
  str_on_off :: "pyval \<Rightarrow> pyval"
  to_native :: "py_exception \<Rightarrow> string"
  json_dumps :: "pyval \<Rightarrow> string"
  str_format :: "string \<Rightarrow> string list \<Rightarrow> string"
  URI_DOMAIN_LIST :: string
  URI_DOMAIN_STATUS :: string
  URI_ACTION :: string
  URI_FILESTORE :: string
  GENERAL_ERROR :: string
  ERROR_RETRIEVING_RESULT :: string
  ERROR_ACCEPTING_ACTION :: string
  ERROR_REACH_STATE :: string
  ERROR_NOT_DOMAIN :: string
  ERROR_GET_DOMAIN_LIST :: string
  IMMUTABLE_MESSAGE :: string
  UNCONTROLLED_EXCEPTION :: string
  result :: "(string \<times> pyval) list"

text \<open>
  A piece of \<open>main\<close> runs from the calls made so far and returns its result with the
  calls made by then.
\<close>

type_synonym 'a step = "call list \<Rightarrow> 'a res \<times> call list"

definition lift :: "'a res \<Rightarrow> 'a step" where
  "lift r h = (r, h)"

definition bind_step :: "'a step \<Rightarrow> ('a \<Rightarrow> 'b step) \<Rightarrow> 'b step" where
  "bind_step m f h =
     (case m h of
        (Ok x, h') \<Rightarrow> f x h'
      | (Raise e, h') \<Rightarrow> (Raise e, h')
      | (Stop out, h') \<Rightarrow> (Stop out, h'))"

definition fail_json :: "string \<Rightarrow> 'a step" where
  "fail_json m = lift (Stop (FailJson m))"

definition do_api_call :: "env \<Rightarrow> pyval \<Rightarrow> http_method \<Rightarrow> pyval option \<Rightarrow> response step" where
  "do_api_call e uri meth dat h = (api_call e h uri meth dat, h @ [ApiCall uri meth dat])"

definition do_wait_for_action_end :: "env \<Rightarrow> string \<Rightarrow> pyval \<Rightarrow> string \<Rightarrow> pyval step" where
  "do_wait_for_action_end e uri href state h =
     (wait_for_action_end e h uri href state, h @ [WaitForActionEnd uri href state])"

text \<open>\<open>code == 200 and msg == 'OK'\<close> and its siblings.\<close>

definition is_200_OK :: "response \<Rightarrow> bool" where
  "is_200_OK r = (resp_code r = 200 \<and> resp_msg r = ''OK'')"

definition is_202_Accepted :: "response \<Rightarrow> bool" where
  "is_202_Accepted r = (resp_code r = 202 \<and> resp_msg r = ''Accepted'')"

definition is_400_Bad_Request :: "response \<Rightarrow> bool" where
  "is_400_Bad_Request r = (resp_code r = 400 \<and> resp_msg r = ''Bad Request'')"

text \<open>\<open>data['_links']['location']['href']\<close>\<close>

definition location_href :: "pyval \<Rightarrow> pyval res" where
  "location_href dat =
     bind_res (subscript dat ''_links'') (\<lambda>links.
     bind_res (subscript links ''location'') (\<lambda>loc.
     subscript loc ''href''))"

text \<open>
  The lines every \<open>main\<close> has after the domain list arrives:
  \<^verbatim>\<open>
  if isinstance(chk_data['domain'], dict):
      configured_domains = [chk_data['domain']['name']]
  else:
      configured_domains = [d['name'] for d in chk_data['domain']]
  \<close>
\<close>

definition configured_domains :: "pyval \<Rightarrow> pyval list res" where
  "configured_domains chk_data =
     bind_res (subscript chk_data ''domain'') (\<lambda>dom.
       if isinstance_dict dom then bind_res (subscript dom ''name'') (\<lambda>n. Ok [n])
       else bind_res (iterate dom) (map_res (\<lambda>d. subscript d ''name'')))"

text \<open>
  The end of every \<open>main\<close>:
  \<^verbatim>\<open>
  for k, v in tmp_result.items():
      if v != None:
          result[k] = v
  \<close>
\<close>

fun update_result :: "(string \<times> pyval) list \<Rightarrow> (string \<times> pyval) list \<Rightarrow> (string \<times> pyval) list" where
  "update_result [] res = res"
| "update_result ((k, v) # items) res =
     update_result items (if v \<noteq> PNone then AList.update k v res else res)"

text \<open>
  The two exception handlers of every \<open>main\<close>:
  \<^verbatim>\<open>
  except (NameError, UnboundLocalError) as e:
      module_except = AnsibleModule(argument_spec={})
      module_except.fail_json(msg=to_native(e))
  except Exception as e:
      module.fail_json(msg=(IDGUtils.UNCONTROLLED_EXCEPTION + '. {0}').format(to_native(e)))
  \<close>
\<close>

definition handle_exception :: "env \<Rightarrow> py_exception \<Rightarrow> outcome" where
  "handle_exception e ex =
     (if ex = NameError \<or> ex = UnboundLocalError then FailJson (to_native e ex)
      else FailJson (str_format e (UNCONTROLLED_EXCEPTION e @ ''. {0}'') [to_native e ex]))"

text \<open>
  \<open>main\<close> around its \<open>try\<close> body: the body's \<open>tmp_result\<close> is merged into \<open>result\<close> and
  the module exits with it, unless the body raised or ended the invocation itself.
\<close>

definition finish :: "env \<Rightarrow> (string \<times> pyval) list step \<Rightarrow> outcome \<times> call list" where
  "finish e body =
     (case body [] of
        (Ok tmp_result, h) \<Rightarrow> (ExitJson (update_result tmp_result (result e)), h)
      | (Raise ex, h) \<Rightarrow> (handle_exception e ex, h)
      | (Stop out, h) \<Rightarrow> (out, h))"

section \<open>idg\_domain\_discovery\<close>

text \<open>
  \<open>tmp_result = {"msg": None}\<close>; the domain list is fetched, and on \<open>200 OK\<close> the names
  of the configured domains become \<open>msg\<close>. There is no \<open>else\<close>.
\<close>

definition discovery_body :: "env \<Rightarrow> (string \<times> pyval) list step" where
  "discovery_body e =
     bind_step (do_api_call e (PStr (URI_DOMAIN_LIST e)) GET None) (\<lambda>chk.
       if is_200_OK chk then
         bind_step (lift (configured_domains (resp_data chk))) (\<lambda>domains.
           lift (Ok [(''msg'', PList domains)]))
       else lift (Ok [(''msg'', PNone)]))"

definition discovery_main :: "env \<Rightarrow> outcome \<times> call list" where
  "discovery_main e = finish e (discovery_body e)"

section \<open>idg\_domain\_chkpoint\<close>

definition chkpoint_MODULE_FULLNAME :: string where
  "chkpoint_MODULE_FULLNAME = ''idg_domain_chkpoint-1.0''"

text \<open>\<open>"Configuration Checkpoint '" + chkpoint_name + "' already exists."\<close>\<close>

definition already_exists_phrase :: "string \<Rightarrow> string" where
  "already_exists_phrase chkpoint_name =
     ''Configuration Checkpoint '' @ [CHR 0x27] @ chkpoint_name @ [CHR 0x27] @ '' already exists.''"

text \<open>\<open>"Cannot find Configuration Checkpoint '" + chkpoint_name + "'."\<close>\<close>

definition cannot_find_phrase :: "string \<Rightarrow> string" where
  "cannot_find_phrase chkpoint_name =
     ''Cannot find Configuration Checkpoint '' @ [CHR 0x27] @ chkpoint_name @ [CHR 0x27] @ ''.''"

text \<open>
  \<open>IDGApi.GENERAL_ERROR.format(__MODULE_FULLNAME, state, domain_name) + str(ErrorHandler(err))\<close>
\<close>

definition general_error_msg :: "env \<Rightarrow> string \<Rightarrow> string \<Rightarrow> string \<Rightarrow> pyval \<Rightarrow> string" where
  "general_error_msg e fullname state domain_name err =
     str_format e (GENERAL_ERROR e) [fullname, state, domain_name] @ ErrorHandler_str e err"

text \<open>
  \<open>state == 'present'\<close>. The location link is read twice in the source (for the wait and
  for the final GET); the second reading gives the same value and is not repeated here.
\<close>

definition chkpoint_present ::
  "env \<Rightarrow> string \<Rightarrow> string \<Rightarrow> string \<Rightarrow> (string \<times> pyval) list \<Rightarrow> (string \<times> pyval) list step" where
  "chkpoint_present e state domain_name chkpoint_name tmp_result =
     bind_step (lift (implement_check_mode e (result e))) (\<lambda>_.
     bind_step (do_api_call e (PStr (str_format e (URI_ACTION e) [domain_name])) POST
                  (Some (PDict [(PStr ''SaveCheckpoint'',
                                 PDict [(PStr ''ChkName'', PStr chkpoint_name)])]))) (\<lambda>create.
       if is_202_Accepted create then
         bind_step (lift (location_href (resp_data create))) (\<lambda>href.
         bind_step (do_wait_for_action_end e (str_format e (URI_ACTION e) [domain_name])
                      href state) (\<lambda>action_result.
         bind_step (do_api_call e href GET None) (\<lambda>dcr.
           if is_200_OK dcr then
             bind_step (lift (subscript (resp_data dcr) ''status'')) (\<lambda>status.
               if status = PStr ''error'' then
                 bind_step (lift (subscript (resp_data dcr) ''error'')) (\<lambda>err.
                 bind_step (lift (py_in (already_exists_phrase chkpoint_name) err)) (\<lambda>found.
                   if found then
                     lift (Ok (AList.update ''msg'' (PStr (IMMUTABLE_MESSAGE e))
                              (AList.update ''changed'' (PBool False) tmp_result)))
                   else
                     lift (Ok (AList.update ''failed'' (PBool True)
                              (AList.update ''msg''
                                 (PStr (general_error_msg e chkpoint_MODULE_FULLNAME state
                                          domain_name err))
                              (AList.update ''changed'' (PBool False) tmp_result))))))
               else
                 bind_step (lift (capitalize status)) (\<lambda>m.
                   lift (Ok (AList.update ''changed'' (PBool True)
                            (AList.update ''msg'' m tmp_result)))))
           else fail_json (str_format e (ERROR_RETRIEVING_RESULT e) [state, domain_name]))))
       else if is_200_OK create then
         bind_step (lift (subscript (resp_data create) ''SaveCheckpoint'')) (\<lambda>x.
         bind_step (lift (status_text e x)) (\<lambda>m.
           lift (Ok (AList.update ''changed'' (PBool True)
                    (AList.update ''msg'' m tmp_result)))))
       else fail_json (str_format e (ERROR_ACCEPTING_ACTION e) [state, domain_name])))"

text \<open>\<open>state == 'absent'\<close>\<close>

definition chkpoint_absent ::
  "env \<Rightarrow> string \<Rightarrow> string \<Rightarrow> string \<Rightarrow> (string \<times> pyval) list \<Rightarrow> (string \<times> pyval) list step" where
  "chkpoint_absent e state domain_name chkpoint_name tmp_result =
     bind_step (lift (implement_check_mode e (result e))) (\<lambda>_.
     bind_step (do_api_call e (PStr (str_format e (URI_ACTION e) [domain_name])) POST
                  (Some (PDict [(PStr ''RemoveCheckpoint'',
                                 PDict [(PStr ''ChkName'', PStr chkpoint_name)])]))) (\<lambda>rm.
       if is_202_Accepted rm then
         bind_step (lift (location_href (resp_data rm))) (\<lambda>href.
         bind_step (do_wait_for_action_end e (str_format e (URI_ACTION e) [domain_name])
                      href state) (\<lambda>action_result.
         bind_step (do_api_call e href GET None) (\<lambda>drm.
           if is_200_OK drm then
             bind_step (lift (subscript (resp_data drm) ''status'')) (\<lambda>status.
               if status = PStr ''error'' then
                 bind_step (lift (subscript (resp_data drm) ''error'')) (\<lambda>err.
                   lift (Ok (AList.update ''failed'' (PBool True)
                            (AList.update ''changed'' (PBool False)
                            (AList.update ''msg''
                               (PStr (general_error_msg e chkpoint_MODULE_FULLNAME state
                                        domain_name err))
                             tmp_result)))))
               else
                 bind_step (lift (capitalize status)) (\<lambda>m.
                   lift (Ok (AList.update ''changed'' (PBool True)
                            (AList.update ''msg'' m tmp_result)))))
           else fail_json (str_format e (ERROR_RETRIEVING_RESULT e) [state, domain_name]))))
       else if is_200_OK rm then
         bind_step (lift (subscript (resp_data rm) ''RemoveCheckpoint'')) (\<lambda>x.
         bind_step (lift (status_text e x)) (\<lambda>m.
           lift (Ok (AList.update ''changed'' (PBool True)
                    (AList.update ''msg'' m tmp_result)))))
       else if is_400_Bad_Request rm then
         bind_step (lift (subscript (resp_data rm) ''error'')) (\<lambda>err.
         bind_step (lift (py_in (cannot_find_phrase chkpoint_name) err)) (\<lambda>found.
           if found then
             lift (Ok (AList.update ''msg'' (PStr (IMMUTABLE_MESSAGE e)) tmp_result))
           else
             lift (Ok (AList.update ''failed'' (PBool True)
                      (AList.update ''msg''
                         (PStr (general_error_msg e chkpoint_MODULE_FULLNAME state
                                  domain_name err))
                       tmp_result)))))
       else fail_json (str_format e (ERROR_ACCEPTING_ACTION e) [state, domain_name])))"

text \<open>\<open>state == 'restored'\<close>\<close>

definition chkpoint_restored ::
  "env \<Rightarrow> string \<Rightarrow> string \<Rightarrow> string \<Rightarrow> (string \<times> pyval) list \<Rightarrow> (string \<times> pyval) list step" where
  "chkpoint_restored e state domain_name chkpoint_name tmp_result =
     bind_step (lift (implement_check_mode e (result e))) (\<lambda>_.
     bind_step (do_api_call e (PStr (str_format e (URI_ACTION e) [domain_name])) POST
                  (Some (PDict [(PStr ''RollbackCheckpoint'',
                                 PDict [(PStr ''ChkName'', PStr chkpoint_name)])]))) (\<lambda>bak.
       if is_202_Accepted bak then
         bind_step (lift (location_href (resp_data bak))) (\<lambda>href.
         bind_step (do_wait_for_action_end e (str_format e (URI_ACTION e) [domain_name])
                      href state) (\<lambda>action_result.
         bind_step (do_api_call e href GET None) (\<lambda>dbak.
           if is_200_OK dbak then
             bind_step (lift (subscript (resp_data dbak) ''status'')) (\<lambda>status.
               if status = PStr ''error'' then
                 bind_step (lift (subscript (resp_data dbak) ''error'')) (\<lambda>err.
                   lift (Ok (AList.update ''failed'' (PBool True)
                            (AList.update ''changed'' (PBool False)
                            (AList.update ''msg''
                               (PStr (general_error_msg e chkpoint_MODULE_FULLNAME state
                                        domain_name err))
                             tmp_result)))))
               else
                 bind_step (lift (capitalize status)) (\<lambda>m.
                   lift (Ok (AList.update ''changed'' (PBool True)
                            (AList.update ''msg'' m tmp_result)))))
           else fail_json (str_format e (ERROR_RETRIEVING_RESULT e) [state, domain_name]))))
       else if is_200_OK bak then
         bind_step (lift (subscript (resp_data bak) ''RollbackCheckpoint'')) (\<lambda>x.
         bind_step (lift (status_text e x)) (\<lambda>m.
           lift (Ok (AList.update ''changed'' (PBool True)
                    (AList.update ''msg'' m tmp_result)))))
       else fail_json (str_format e (ERROR_ACCEPTING_ACTION e) [state, domain_name])))"

text \<open>
  The \<open>try\<close> body of \<open>main\<close>: the domain list is fetched and the domain looked up before the
  branch on \<open>state\<close>.
\<close>

definition chkpoint_body ::
  "env \<Rightarrow> string \<Rightarrow> string \<Rightarrow> string \<Rightarrow> (string \<times> pyval) list step" where
  "chkpoint_body e state domain_name chkpoint_name =
     (let tmp_result = [(''name'', PStr chkpoint_name), (''domain'', PStr domain_name),
                        (''msg'', PNone), (''changed'', PNone), (''failed'', PNone)]
      in bind_step (do_api_call e (PStr (URI_DOMAIN_LIST e)) GET None) (\<lambda>chk.
           if is_200_OK chk then
             bind_step (lift (configured_domains (resp_data chk))) (\<lambda>domains.
               if PStr domain_name \<in> set domains then
                 (if state = ''present'' then
                    chkpoint_present e state domain_name chkpoint_name tmp_result
                  else if state = ''absent'' then
                    chkpoint_absent e state domain_name chkpoint_name tmp_result
                  else if state = ''restored'' then
                    chkpoint_restored e state domain_name chkpoint_name tmp_result
                  else lift (Ok tmp_result))
               else fail_json (str_format e (ERROR_REACH_STATE e @ '' '' @ ERROR_NOT_DOMAIN e)
                                 [state, domain_name]))
           else fail_json (ERROR_GET_DOMAIN_LIST e)))"

definition chkpoint_main :: "env \<Rightarrow> string \<Rightarrow> string \<Rightarrow> string \<Rightarrow> outcome \<times> call list" where
  "chkpoint_main e state domain_name chkpoint_name =
     finish e (chkpoint_body e state domain_name chkpoint_name)"

section \<open>idg\_domain\_config\<close>

record config_params =
  user_summary :: pyval
  all_files :: pyval
  persisted :: pyval
  internal_files :: pyval
  input_file :: pyval
  output_path :: pyval
  overwrite_files :: pyval
  overwrite_objects :: pyval
  dry_run :: pyval
  rewrite_local_ip :: pyval
  deployment_policy :: pyval
  deployment_policy_params :: pyval
  import_format :: pyval

subsection \<open>The sections of an import result\<close>

text \<open>The summary dictionary as a value.\<close>

definition summary_value :: "(pyval \<times> int) list \<Rightarrow> pyval" where
  "summary_value s = PDict (map (\<lambda>(k, n). (k, PInt n)) s)"

text \<open>
  \<open>{"summary": {"total": len(xs), "status": get_status_summary(xs)}, "detail": xs}\<close>,
  raising what \<open>get_status_summary\<close> raises.
\<close>

definition summary_detail :: "pyval list \<Rightarrow> pyval res" where
  "summary_detail xs =
     bind_res (get_status_summary xs) (\<lambda>s.
       Ok (PDict [(PStr ''summary'',
                   PDict [(PStr ''total'', PInt (int (length xs))),
                          (PStr ''status'', summary_value s)]),
                  (PStr ''detail'', PList xs)]))"

text \<open>
  \<^verbatim>\<open>
  try:
      exec_script_results = import_results['exec-script-results']
      try:
          if isinstance(exec_script_results['cfg-result'], list):
              tmp_result['results'].append({"exec-script-results":
                  {"summary": {"total": len(exec_script_results['cfg-result']),
                               "status": get_status_summary(exec_script_results['cfg-result'])},
                   "detail": exec_script_results['cfg-result']}})
          else:
              tmp_result['results'].append(
                  {"exec-script-results": exec_script_results['cfg-result']})
      except Exception as e:
          tmp_result['results'].append({"exec-script-results": exec_script_results})
  except Exception as e:
      pass
  \<close>
  Each block returns what it appends to \<open>tmp_result['results']\<close>.
\<close>

definition exec_script_results_block :: "pyval \<Rightarrow> pyval list res" where
  "exec_script_results_block import_results =
     try_except
       (bind_res (subscript import_results ''exec-script-results'') (\<lambda>exec_script_results.
          try_except
            (bind_res (subscript exec_script_results ''cfg-result'') (\<lambda>cfg_result.
               case cfg_result of
                 PList xs \<Rightarrow>
                   bind_res (summary_detail xs) (\<lambda>sd.
                     Ok [PDict [(PStr ''exec-script-results'', sd)]])
               | _ \<Rightarrow> Ok [PDict [(PStr ''exec-script-results'', cfg_result)]]))
            (Ok [PDict [(PStr ''exec-script-results'', exec_script_results)]])))
       (Ok [])"

definition file_copy_log_block :: "pyval \<Rightarrow> pyval list res" where
  "file_copy_log_block import_results =
     try_except
       (bind_res (subscript import_results ''file-copy-log'') (\<lambda>file_copy_log.
        bind_res (subscript file_copy_log ''file-result'') (\<lambda>file_result.
          Ok [PDict [(PStr ''file-copy-log'', file_result)]])))
       (Ok [])"

definition imported_debug_block :: "pyval \<Rightarrow> pyval list res" where
  "imported_debug_block import_results =
     try_except
       (bind_res (subscript import_results ''imported-debug'') (\<lambda>imported_debug.
          Ok [PDict [(PStr ''imported-debug'', imported_debug)]]))
       (Ok [])"

definition imported_files_block :: "pyval \<Rightarrow> pyval list res" where
  "imported_files_block import_results =
     try_except
       (bind_res (subscript import_results ''imported-files'') (\<lambda>imported_files.
          try_except
            (bind_res (subscript imported_files ''file'') (\<lambda>file.
               case file of
                 PList xs \<Rightarrow>
                   bind_res (summary_detail xs) (\<lambda>sd.
                     Ok [PDict [(PStr ''imported-files'', sd)]])
               | _ \<Rightarrow> Ok [PDict [(PStr ''imported-files'', file)]]))
            (Ok [PDict [(PStr ''imported-files'', imported_files)]])))
       (Ok [])"

definition imported_objects_block :: "pyval \<Rightarrow> pyval list res" where
  "imported_objects_block import_results =
     try_except
       (bind_res (subscript import_results ''imported-objects'') (\<lambda>imported_objects.
          try_except
            (bind_res (subscript imported_objects ''object'') (\<lambda>object.
               case object of
                 PList xs \<Rightarrow>
                   bind_res (summary_detail xs) (\<lambda>sd.
                     Ok [PDict [(PStr ''imported-objects'', sd)]])
               | _ \<Rightarrow> Ok [PDict [(PStr ''imported-objects'', object)]]))
            (Ok [PDict [(PStr ''imported-objects'', imported_objects)]])))
       (Ok [])"

text \<open>\<open>tmp_result['results']\<close> after a successful import, block after block.\<close>

definition import_results_list :: "pyval \<Rightarrow> pyval list res" where
  "import_results_list import_results =
     bind_res (subscript import_results ''export-details'') (\<lambda>export_details.
     bind_res (exec_script_results_block import_results) (\<lambda>r1.
     bind_res (file_copy_log_block import_results) (\<lambda>r2.
     bind_res (imported_debug_block import_results) (\<lambda>r3.
     bind_res (imported_files_block import_results) (\<lambda>r4.
     bind_res (imported_objects_block import_results) (\<lambda>r5.
       Ok ([PDict [(PStr ''export-details'', export_details)]] @ r1 @ r2 @ r3 @ r4 @ r5)))))))"

subsection \<open>The branches of main\<close>

definition config_MODULE_FULLNAME :: string where
  "config_MODULE_FULLNAME = ''idg_domain_config-1.0''"

text \<open>\<open>state == 'exported'\<close>\<close>

definition config_exported ::
  "env \<Rightarrow> config_params \<Rightarrow> string \<Rightarrow> string \<Rightarrow> (string \<times> pyval) list \<Rightarrow> (string \<times> pyval) list step" where
  "config_exported e p state domain_name tmp_result =
     (let export_action_msg =
            PDict [(PStr ''Export'',
                    PDict [(PStr ''Format'', PStr ''ZIP''),
                           (PStr ''UserComment'', user_summary p),
                           (PStr ''AllFiles'', str_on_off e (all_files p)),
                           (PStr ''Persisted'', str_on_off e (persisted p)),
                           (PStr ''IncludeInternalFiles'', str_on_off e (internal_files p))])]
      in
     bind_step (lift (implement_check_mode e (result e))) (\<lambda>_.
     bind_step (do_api_call e (PStr (str_format e (URI_ACTION e) [domain_name])) POST
                  (Some export_action_msg)) (\<lambda>exp.
       if is_202_Accepted exp then
         bind_step (lift (location_href (resp_data exp))) (\<lambda>href.
         bind_step (do_wait_for_action_end e (str_format e (URI_ACTION e) [domain_name])
                      href state) (\<lambda>action_result.
         bind_step (do_api_call e href GET None) (\<lambda>doex.
           if is_200_OK doex then
             bind_step (lift (subscript (resp_data doex) ''result'')) (\<lambda>r.
             bind_step (lift (subscript r ''file'')) (\<lambda>file.
               lift (Ok (AList.update ''changed'' (PBool True)
                        (AList.update ''msg'' action_result
                        (AList.update ''file'' file tmp_result))))))
           else fail_json (str_format e (ERROR_RETRIEVING_RESULT e) [state, domain_name]))))
       else if is_200_OK exp then
         bind_step (lift (subscript (resp_data exp) ''Export'')) (\<lambda>x.
         bind_step (lift (status_text e x)) (\<lambda>m.
           lift (Ok (AList.update ''changed'' (PBool True)
                    (AList.update ''msg'' m tmp_result)))))
       else fail_json (str_format e (ERROR_ACCEPTING_ACTION e) [state, domain_name]))))"

text \<open>\<open>state == 'reseted'\<close>\<close>

definition config_reseted ::
  "env \<Rightarrow> string \<Rightarrow> string \<Rightarrow> (string \<times> pyval) list \<Rightarrow> (string \<times> pyval) list step" where
  "config_reseted e state domain_name tmp_result =
     bind_step (lift (implement_check_mode e (result e))) (\<lambda>_.
     bind_step (do_api_call e (PStr (str_format e (URI_ACTION e) [domain_name])) POST
                  (Some (PDict [(PStr ''ResetThisDomain'', PDict [])]))) (\<lambda>reset.
       if is_202_Accepted reset then
         bind_step (lift (location_href (resp_data reset))) (\<lambda>href.
         bind_step (do_wait_for_action_end e (str_format e (URI_ACTION e) [domain_name])
                      href state) (\<lambda>action_result.
         bind_step (do_api_call e href GET None) (\<lambda>dore.
           if is_200_OK dore then
             bind_step (lift (subscript (resp_data dore) ''status'')) (\<lambda>status.
             bind_step (lift (capitalize status)) (\<lambda>m.
               lift (Ok (AList.update ''changed'' (PBool True)
                        (AList.update ''msg'' m tmp_result)))))
           else fail_json (str_format e (ERROR_RETRIEVING_RESULT e) [state, domain_name]))))
       else if is_200_OK reset then
         bind_step (lift (subscript (resp_data reset) ''ResetThisDomain'')) (\<lambda>x.
         bind_step (lift (status_text e x)) (\<lambda>m.
           lift (Ok (AList.update ''changed'' (PBool True)
                    (AList.update ''msg'' m tmp_result)))))
       else fail_json (str_format e (ERROR_ACCEPTING_ACTION e) [state, domain_name])))"

text \<open>
  \<open>[d['SaveNeeded'] for d in qds_data['DomainStatus'] if d['Domain'] == domain_name]\<close>
\<close>

fun save_needed_of :: "string \<Rightarrow> pyval list \<Rightarrow> pyval list res" where
  "save_needed_of domain_name [] = Ok []"
| "save_needed_of domain_name (d # ds) =
     bind_res (subscript d ''Domain'') (\<lambda>dom.
       if dom = PStr domain_name then
         bind_res (subscript d ''SaveNeeded'') (\<lambda>s.
         bind_res (save_needed_of domain_name ds) (\<lambda>r. Ok (s # r)))
       else save_needed_of domain_name ds)"

text \<open>
  \<^verbatim>\<open>
  if isinstance(qds_data['DomainStatus'], dict):
      domain_save_needed = qds_data['DomainStatus']['SaveNeeded']
  else:
      domain_save_needed = [d['SaveNeeded'] for d in qds_data['DomainStatus']
                            if d['Domain'] == domain_name][0]
  \<close>
\<close>

definition domain_save_needed :: "string \<Rightarrow> pyval \<Rightarrow> pyval res" where
  "domain_save_needed domain_name qds_data =
     bind_res (subscript qds_data ''DomainStatus'') (\<lambda>ds.
       if isinstance_dict ds then subscript ds ''SaveNeeded''
       else bind_res (iterate ds) (\<lambda>xs.
            bind_res (save_needed_of domain_name xs) (\<lambda>r.
              case r of [] \<Rightarrow> Raise IndexError | x # _ \<Rightarrow> Ok x)))"

text \<open>\<open>state == 'saved'\<close>: the domain status is fetched first; there is no \<open>else\<close> for an
  answer other than \<open>200 OK\<close>.\<close>

definition config_saved ::
  "env \<Rightarrow> string \<Rightarrow> string \<Rightarrow> (string \<times> pyval) list \<Rightarrow> (string \<times> pyval) list step" where
  "config_saved e state domain_name tmp_result =
     bind_step (do_api_call e (PStr (URI_DOMAIN_STATUS e)) GET None) (\<lambda>qds.
       if is_200_OK qds then
         bind_step (lift (domain_save_needed domain_name (resp_data qds))) (\<lambda>save_needed.
           if save_needed \<noteq> PStr ''off'' then
             bind_step (lift (implement_check_mode e (result e))) (\<lambda>_.
             bind_step (do_api_call e (PStr (str_format e (URI_ACTION e) [domain_name])) POST
                          (Some (PDict [(PStr ''SaveConfig'', PDict [])]))) (\<lambda>save.
               if is_202_Accepted save then
                 bind_step (lift (location_href (resp_data save))) (\<lambda>href.
                 bind_step (do_wait_for_action_end e
                              (str_format e (URI_ACTION e) [domain_name]) href state)
                   (\<lambda>action_result.
                 bind_step (do_api_call e href GET None) (\<lambda>dosv.
                   if is_200_OK dosv then
                     lift (Ok (AList.update ''changed'' (PBool True)
                              (AList.update ''msg'' action_result tmp_result)))
                   else fail_json (str_format e (ERROR_RETRIEVING_RESULT e)
                                     [state, domain_name]))))
               else if is_200_OK save then
                 bind_step (lift (subscript (resp_data save) ''SaveConfig'')) (\<lambda>x.
                 bind_step (lift (status_text e x)) (\<lambda>m.
                   lift (Ok (AList.update ''changed'' (PBool True)
                            (AList.update ''msg'' m tmp_result)))))
               else fail_json (str_format e (ERROR_RETRIEVING_RESULT e)
                                 [state, domain_name])))
           else lift (Ok (AList.update ''msg'' (PStr (IMMUTABLE_MESSAGE e)) tmp_result)))
       else lift (Ok tmp_result))"

text \<open>\<open>state == 'imported'\<close>\<close>

definition import_action_msg :: "env \<Rightarrow> config_params \<Rightarrow> pyval" where
  "import_action_msg e p =
     (if deployment_policy p \<noteq> PNone then
        PDict [(PStr ''Import'',
                PDict [(PStr ''Format'', import_format p),
                       (PStr ''InputFile'', input_file p),
                       (PStr ''OverwriteFiles'', str_on_off e (overwrite_files p)),
                       (PStr ''OverwriteObjects'', str_on_off e (overwrite_objects p)),
                       (PStr ''DryRun'', str_on_off e (dry_run p)),
                       (PStr ''RewriteLocalIP'', str_on_off e (rewrite_local_ip p)),
                       (PStr ''DeploymentPolicy'', deployment_policy p),
                       (PStr ''DeploymentPolicyParams'', deployment_policy_params p)])]
      else
        PDict [(PStr ''Import'',
                PDict [(PStr ''Format'', import_format p),
                       (PStr ''InputFile'', input_file p),
                       (PStr ''OverwriteFiles'', str_on_off e (overwrite_files p)),
                       (PStr ''OverwriteObjects'', str_on_off e (overwrite_objects p)),
                       (PStr ''DryRun'', str_on_off e (dry_run p)),
                       (PStr ''RewriteLocalIP'', str_on_off e (rewrite_local_ip p))])])"

text \<open>What the final detail body of an import gives, once it arrived with \<open>200 OK\<close>.\<close>

definition config_import_detail ::
  "pyval \<Rightarrow> (string \<times> pyval) list \<Rightarrow> (string \<times> pyval) list res" where
  "config_import_detail doim_data tmp_result =
     bind_res (subscript doim_data ''result'') (\<lambda>r.
     bind_res (subscript r ''Import'') (\<lambda>imp.
     bind_res (subscript imp ''import-results'') (\<lambda>import_results.
     bind_res (subscript import_results ''detected-errors'') (\<lambda>detected_errors.
       if detected_errors \<noteq> PStr ''false'' then
         bind_res (subscript detected_errors ''error'') (\<lambda>err.
         bind_res (str_add (''Import failed with error code: '' @ [CHR 0x22]) err) (\<lambda>m.
           Ok (AList.update ''failed'' (PBool True)
              (AList.update ''changed'' (PBool False)
              (AList.update ''msg'' (PStr (m @ [CHR 0x22])) tmp_result)))))
       else
         bind_res (import_results_list import_results) (\<lambda>results.
         bind_res (subscript doim_data ''status'') (\<lambda>status.
         bind_res (capitalize status) (\<lambda>m.
           Ok (AList.update ''changed'' (PBool True)
              (AList.update ''msg'' m
              (AList.update ''results'' (PList results) tmp_result))))))))))"

definition config_imported ::
  "env \<Rightarrow> config_params \<Rightarrow> string \<Rightarrow> string \<Rightarrow> (string \<times> pyval) list \<Rightarrow> (string \<times> pyval) list step" where
  "config_imported e p state domain_name tmp_result =
     bind_step (lift (implement_check_mode e (result e))) (\<lambda>_.
     bind_step (do_api_call e (PStr (str_format e (URI_ACTION e) [domain_name])) POST
                  (Some (import_action_msg e p))) (\<lambda>imp.
       if is_202_Accepted imp then
         bind_step (lift (location_href (resp_data imp))) (\<lambda>href.
         bind_step (do_wait_for_action_end e (str_format e (URI_ACTION e) [domain_name])
                      href state) (\<lambda>action_result.
         bind_step (do_api_call e href GET None) (\<lambda>doim.
           if is_200_OK doim then lift (config_import_detail (resp_data doim) tmp_result)
           else fail_json (str_format e (ERROR_RETRIEVING_RESULT e) [state, domain_name]))))
       else if is_200_OK imp then
         bind_step (lift (subscript (resp_data imp) ''Import'')) (\<lambda>x.
         bind_step (lift (status_text e x)) (\<lambda>m.
           lift (Ok (AList.update ''changed'' (PBool True)
                    (AList.update ''msg'' m tmp_result)))))
       else fail_json (str_format e (ERROR_ACCEPTING_ACTION e) [state, domain_name]
                        @ json_dumps e (import_action_msg e p))))"

text \<open>\<open>state == 'stored'\<close>; \<open>filename\<close> is the parameter \<open>output_path\<close>.\<close>

definition config_stored ::
  "env \<Rightarrow> config_params \<Rightarrow> string \<Rightarrow> string \<Rightarrow> (string \<times> pyval) list \<Rightarrow> (string \<times> pyval) list step" where
  "config_stored e p state domain_name tmp_result =
     (case output_path p of
        PStr filename \<Rightarrow>
          bind_step (lift (rsplit_slash_1 filename)) (\<lambda>base.
          bind_step (lift (implement_check_mode e (result e))) (\<lambda>_.
          bind_step (do_api_call e
                       (PStr (str_format e (URI_FILESTORE e) [domain_name]
                              @ replace_spaces filename)) PUT
                       (Some (PDict [(PStr ''file'',
                                      PDict [(PStr ''name'', PStr base),
                                             (PStr ''content'', input_file p)])]))) (\<lambda>store.
            if resp_msg store = ''OK'' \<and> resp_code store = 200 \<or> resp_code store = 201 then
              bind_step (lift (subscript (resp_data store) ''result'')) (\<lambda>x.
              bind_step (lift (status_text e x)) (\<lambda>m.
                lift (Ok (AList.update ''changed'' (PBool True)
                         (AList.update ''msg'' m tmp_result)))))
            else fail_json (str_format e (ERROR_REACH_STATE e) [state, domain_name]
                            @ '' HTTP response code: '' @ str_int (resp_code store)
                            @ '' Response body: '' @ json_dumps e (resp_data store)))))
      | _ \<Rightarrow> lift (Raise AttributeError))"

definition config_body ::
  "env \<Rightarrow> config_params \<Rightarrow> string \<Rightarrow> string \<Rightarrow> (string \<times> pyval) list step" where
  "config_body e p state domain_name =
     (let tmp_result = [(''name'', PStr domain_name), (''msg'', PNone), (''file'', PNone),
                        (''changed'', PNone), (''failed'', PNone)]
      in bind_step (do_api_call e (PStr (URI_DOMAIN_LIST e)) GET None) (\<lambda>chk.
           if is_200_OK chk then
             bind_step (lift (configured_domains (resp_data chk))) (\<lambda>domains.
               if PStr domain_name \<in> set domains then
                 (if state = ''exported'' then config_exported e p state domain_name tmp_result
                  else if state = ''reseted'' then config_reseted e state domain_name tmp_result
                  else if state = ''saved'' then config_saved e state domain_name tmp_result
                  else if state = ''imported'' then
                    config_imported e p state domain_name tmp_result
                  else if state = ''stored'' then config_stored e p state domain_name tmp_result
                  else lift (Ok tmp_result))
               else fail_json (str_format e (ERROR_REACH_STATE e @ '' '' @ ERROR_NOT_DOMAIN e)
                                 [state, domain_name]))
           else fail_json (ERROR_GET_DOMAIN_LIST e)))"

definition config_main ::
  "env \<Rightarrow> config_params \<Rightarrow> string \<Rightarrow> string \<Rightarrow> outcome \<times> call list" where
  "config_main e p state domain_name = finish e (config_body e p state domain_name)"

section \<open>An example device\<close>

text \<open>
  A concrete environment to run the modules on: the device answers the n-th \<open>api_call\<close>
  with the n-th response of a script, every asynchronous action ends as \<open>completed\<close>,
  check mode is off, and the shared \<open>result\<close> starts as \<open>{"changed": False}\<close>. The
  templates have numbered fields only.
\<close>

fun example_format :: "string \<Rightarrow> string list \<Rightarrow> string" where
  "example_format [] args = []"
| "example_format (c # cs) args =
     (if c = CHR ''{'' \<and> 2 \<le> length cs \<and> cs ! 1 = CHR ''}'' then
        (let i = (of_char (cs ! 0) :: nat) - 48
         in (if i < length args then args ! i else []) @ example_format (drop 2 cs) args)
      else c # example_format cs args)"

fun is_ApiCall :: "call \<Rightarrow> bool" where
  "is_ApiCall (ApiCall _ _ _) = True"
| "is_ApiCall _ = False"

definition scripted :: "response list \<Rightarrow> call list \<Rightarrow> response" where
  "scripted rs h =
     (let n = length (filter is_ApiCall h)
      in if n < length rs then rs ! n
         else \<lparr>resp_code = 500, resp_msg = ''Internal Server Error'', resp_data = PNone\<rparr>)"

fun example_ErrorHandler_str :: "pyval \<Rightarrow> string" where
  "example_ErrorHandler_str (PStr s) = s"
| "example_ErrorHandler_str (PList (PStr s # _)) = s"
| "example_ErrorHandler_str _ = []"

definition example_env :: "response list \<Rightarrow> env" where
  "example_env rs =
     \<lparr>api_call = (\<lambda>h uri meth dat. Ok (scripted rs h)),
      wait_for_action_end = (\<lambda>h uri href state. Ok (PStr ''completed'')),
      status_text = (\<lambda>v. Ok v),
      implement_check_mode = (\<lambda>r. Ok ()),
      ErrorHandler_str = example_ErrorHandler_str,
      str_on_off = (\<lambda>v. if v = PBool True then PStr ''on'' else PStr ''off''),
      to_native = (\<lambda>ex. ''exception''),
      json_dumps = (\<lambda>v. ''{}''),
      str_format = example_format,
      URI_DOMAIN_LIST = ''/mgmt/domains/config/'',
      URI_DOMAIN_STATUS = ''/mgmt/status/default/DomainStatus'',
      URI_ACTION = ''/mgmt/actionqueue/{0}'',
      URI_FILESTORE = ''/mgmt/filestore/{0}/'',
      GENERAL_ERROR = ''{0}: state {1}, domain {2}: '',
      ERROR_RETRIEVING_RESULT = ''No result for state {0} in domain {1}.'',
      ERROR_ACCEPTING_ACTION = ''State {0} not accepted in domain {1}.'',
      ERROR_REACH_STATE = ''Cannot reach state {0}.'',
      ERROR_NOT_DOMAIN = ''No domain {1}.'',
      ERROR_GET_DOMAIN_LIST = ''Cannot get the domain list.'',
      IMMUTABLE_MESSAGE = ''Nothing to do.'',
      UNCONTROLLED_EXCEPTION = ''Unknown error'',
      result = [(''changed'', PBool False)]\<rparr>"

text \<open>Answers of the device: the domain list with the domains \<open>default\<close> and \<open>test\<close>.\<close>

definition domains_response :: response where
  "domains_response =
     \<lparr>resp_code = 200, resp_msg = ''OK'',
      resp_data = PDict [(PStr ''domain'',
                          PList [PDict [(PStr ''name'', PStr ''default'')],
                                 PDict [(PStr ''name'', PStr ''test'')]])]\<rparr>"

text \<open>An accepted action with its location link, and one without the link.\<close>

definition accepted_response :: response where
  "accepted_response =
     \<lparr>resp_code = 202, resp_msg = ''Accepted'',
      resp_data = PDict [(PStr ''_links'',
                          PDict [(PStr ''location'',
                                  PDict [(PStr ''href'', PStr ''/mgmt/actionqueue/test/pending/1'')])])]\<rparr>"

definition accepted_no_link_response :: response where
  "accepted_no_link_response =
     \<lparr>resp_code = 202, resp_msg = ''Accepted'', resp_data = PDict [(PStr ''status'', PStr ''accepted'')]\<rparr>"

text \<open>A final detail body that reports an error, with the messages of the device.\<close>

definition error_detail_response :: "pyval \<Rightarrow> response" where
  "error_detail_response err =
     \<lparr>resp_code = 200, resp_msg = ''OK'',
      resp_data = PDict [(PStr ''status'', PStr ''error''), (PStr ''error'', err)]\<rparr>"

definition bad_request_response :: "pyval \<Rightarrow> response" where
  "bad_request_response err =
     \<lparr>resp_code = 400, resp_msg = ''Bad Request'', resp_data = PDict [(PStr ''error'', err)]\<rparr>"

definition unavailable_response :: response where
  "unavailable_response =
     \<lparr>resp_code = 503, resp_msg = ''Service Unavailable'', resp_data = PNone\<rparr>"

definition example_params :: config_params where
  "example_params =
     \<lparr>user_summary = PNone, all_files = PBool False, persisted = PBool False,
      internal_files = PBool True, input_file = PNone, output_path = PNone,
      overwrite_files = PBool False, overwrite_objects = PBool False, dry_run = PBool False,
      rewrite_local_ip = PBool False, deployment_policy = PNone,
      deployment_policy_params = PNone, import_format = PStr ''ZIP''\<rparr>"

text \<open>The name of a domain object of the domain list.\<close>

definition name_of :: "pyval \<Rightarrow> pyval" where
  "name_of d = (case subscript d ''name'' of Ok n \<Rightarrow> n | _ \<Rightarrow> PNone)"

text \<open>A domain list with the default domain only: a single object instead of a list.\<close>

definition single_domain_response :: response where
  "single_domain_response =
     \<lparr>resp_code = 200, resp_msg = ''OK'',
      resp_data = PDict [(PStr ''domain'', PDict [(PStr ''name'', PStr ''default'')])]\<rparr>"

text \<open>Three entries of an import result.\<close>

definition example_entries :: "pyval list" where
  "example_entries =
     [PDict [(PStr ''name'', PStr ''a.xsl''), (PStr ''status'', PStr ''ok'')],
      PDict [(PStr ''name'', PStr ''b.xsl''), (PStr ''status'', PStr ''error'')],
      PDict [(PStr ''name'', PStr ''c.xsl''), (PStr ''status'', PStr ''ok'')]]"

section \<open>Notions used in the statements\<close>

text \<open>The action message that the checkpoint module posts in a state.\<close>

definition chkpoint_act_msg :: "string \<Rightarrow> string \<Rightarrow> pyval" where
  "chkpoint_act_msg state chkpoint_name =
     PDict [(PStr (if state = ''present'' then ''SaveCheckpoint''
                   else if state = ''absent'' then ''RemoveCheckpoint''
                   else ''RollbackCheckpoint''),
             PDict [(PStr ''ChkName'', PStr chkpoint_name)])]"

text \<open>The action message that the domain-config module posts in a state.\<close>

definition config_act_msg :: "env \<Rightarrow> config_params \<Rightarrow> string \<Rightarrow> pyval" where
  "config_act_msg e p state =
     (if state = ''exported'' then
        PDict [(PStr ''Export'',
                PDict [(PStr ''Format'', PStr ''ZIP''),
                       (PStr ''UserComment'', user_summary p),
                       (PStr ''AllFiles'', str_on_off e (all_files p)),
                       (PStr ''Persisted'', str_on_off e (persisted p)),
                       (PStr ''IncludeInternalFiles'', str_on_off e (internal_files p))])]
      else if state = ''reseted'' then PDict [(PStr ''ResetThisDomain'', PDict [])]
      else if state = ''saved'' then PDict [(PStr ''SaveConfig'', PDict [])]
      else import_action_msg e p)"

fun is_FailJson :: "outcome \<Rightarrow> bool" where
  "is_FailJson (FailJson _) = True"
| "is_FailJson (ExitJson _) = False"

text \<open>
  What an invocation does with an accepted action, given the calls \<open>before\<close> made up to
  and including the POST and the response \<open>r\<close> to the POST: with a location link in the
  body, the next call is \<open>wait_for_action_end\<close> on that link; without one, the invocation
  ends there in \<open>fail_json\<close>.
\<close>

definition polls_or_fails ::
  "env \<Rightarrow> outcome \<times> call list \<Rightarrow> call list \<Rightarrow> string \<Rightarrow> string \<Rightarrow> response \<Rightarrow> bool" where
  "polls_or_fails e run before uri state r =
     (case location_href (resp_data r) of
        Ok href \<Rightarrow>
          take (Suc (length before)) (snd run) = before @ [WaitForActionEnd uri href state]
      | Raise ex \<Rightarrow> run = (handle_exception e ex, before) \<and> is_FailJson (fst run)
      | Stop out \<Rightarrow> False)"

text \<open>A step only adds calls to the calls made so far.\<close>

definition extends :: "'a step \<Rightarrow> bool" where
  "extends m = (\<forall>h. \<exists>rest. snd (m h) = h @ rest)"

text \<open>A domain status that says the domain \<open>test\<close> needs saving.\<close>

definition save_needed_response :: response where
  "save_needed_response =
     \<lparr>resp_code = 200, resp_msg = ''OK'',
      resp_data = PDict [(PStr ''DomainStatus'',
                          PList [PDict [(PStr ''Domain'', PStr ''default''),
                                        (PStr ''SaveNeeded'', PStr ''off'')],
                                 PDict [(PStr ''Domain'', PStr ''test''),
                                        (PStr ''SaveNeeded'', PStr ''on'')]])]\<rparr>"

text \<open>
  The normalisation as the specification words it: a single object becomes a one-element
  sequence, a list is used as it is.
\<close>

definition spec_normalize :: "pyval \<Rightarrow> pyval list" where
  "spec_normalize raw = (case raw of PList xs \<Rightarrow> xs | obj \<Rightarrow> [obj])"

text \<open>The value reported for a list \<open>xs\<close> of entries with the status summary \<open>s\<close>.\<close>

definition summarised :: "pyval list \<Rightarrow> (pyval \<times> int) list \<Rightarrow> pyval" where
  "summarised xs s =
     PDict [(PStr ''summary'',
             PDict [(PStr ''total'', PInt (int (length xs))),
                    (PStr ''status'', summary_value s)]),
            (PStr ''detail'', PList xs)]"

text \<open>
  An import result whose executed-script result is a single object and whose imported
  files are a list.
\<close>

definition example_import_results :: pyval where
  "example_import_results =
     PDict [(PStr ''detected-errors'', PStr ''false''),
            (PStr ''exec-script-results'',
             PDict [(PStr ''cfg-result'', PDict [(PStr ''status'', PStr ''ok'')])]),
            (PStr ''imported-files'', PDict [(PStr ''file'', PList example_entries)])]"

section \<open>Properties of get\_status\_summary\<close>

lemma dict_lookup_append:
  "dict_lookup (s @ [(k, v)]) k' =
     (case dict_lookup s k' of
        Some x \<Rightarrow> Some x
      | None \<Rightarrow> if key_norm k = key_norm k' then Some v else None)"
  by (induction s) auto

lemma dict_lookup_key_norm:
  "key_norm k = key_norm k' \<Longrightarrow> dict_lookup s k = dict_lookup s k'"
  by (induction s) auto

lemma dict_lookup_store:
  "dict_lookup s k \<noteq> None \<Longrightarrow>
   dict_lookup (dict_store k v s) k' =
     (if key_norm k = key_norm k' then Some v else dict_lookup s k')"
  by (induction s) auto

lemma sum_dict_store:
  "dict_lookup s k = Some (n::int) \<Longrightarrow>
   sum_list (map snd (dict_store k v s)) = sum_list (map snd s) - n + v"
  by (induction s) (auto split: if_splits)

lemma count_status_Cons:
  "count_status k (i # xs) = (if has_status k i then 1 else 0) + count_status k xs"
  by (simp add: count_status_def)

lemma count_status_nonneg: "0 \<le> count_status k xs"
  by (simp add: count_status_def)

lemma loop_lookup:
  "get_status_summary_loop s xs = Ok s' \<Longrightarrow>
   dict_lookup s' k = add_count (dict_lookup s k) (count_status k xs)"
proof (induction s xs arbitrary: s' rule: get_status_summary_loop.induct)
  case (1 s)
  then show ?case
    by (simp add: count_status_def add_count_def split: option.splits)
next
  case (2 s i rest)
  from "2.prems" obtain st where st: "subscript i ''status'' = Ok st" and h: "hashable st"
    by (auto split: res.splits if_splits)
  have hs: "has_status k i = (key_norm st = key_norm k)"
    by (simp add: has_status_def st)
  have nn: "0 \<le> count_status k rest"
    by (rule count_status_nonneg)
  show ?case
  proof (cases "dict_lookup s st")
    case None
    with "2.prems" st h have run: "get_status_summary_loop (s @ [(st, 1)]) rest = Ok s'"
      by simp
    have "dict_lookup s' k =
            add_count (dict_lookup (s @ [(st, 1)]) k) (count_status k rest)"
      using "2.IH"(1) [OF st _ None run] h by simp
    then show ?thesis
      using nn None dict_lookup_key_norm [of st k s]
      by (auto simp: dict_lookup_append count_status_Cons hs add_count_def
               split: option.splits)
  next
    case (Some n)
    with "2.prems" st h
    have run: "get_status_summary_loop (dict_store st (n + 1) s) rest = Ok s'"
      by simp
    have ne: "dict_lookup s st \<noteq> None"
      using Some by simp
    have "dict_lookup s' k =
            add_count (dict_lookup (dict_store st (n + 1) s) k) (count_status k rest)"
      using "2.IH"(2) [OF st _ Some run] h by simp
    then show ?thesis
      using nn Some dict_lookup_key_norm [of st k s]
      by (auto simp: dict_lookup_store [OF ne] count_status_Cons hs add_count_def
               split: option.splits)
  qed
qed

lemma loop_sum:
  "get_status_summary_loop s xs = Ok s' \<Longrightarrow>
   sum_list (map snd s') = sum_list (map snd s) + int (length xs)"
proof (induction s xs arbitrary: s' rule: get_status_summary_loop.induct)
  case (1 s)
  then show ?case by simp
next
  case (2 s i rest)
  from "2.prems" obtain st where st: "subscript i ''status'' = Ok st" and h: "hashable st"
    by (auto split: res.splits if_splits)
  show ?case
  proof (cases "dict_lookup s st")
    case None
    with "2.prems" st h have run: "get_status_summary_loop (s @ [(st, 1)]) rest = Ok s'"
      by simp
    show ?thesis
      using "2.IH"(1) [OF st _ None run] h by simp
  next
    case (Some n)
    with "2.prems" st h
    have run: "get_status_summary_loop (dict_store st (n + 1) s) rest = Ok s'"
      by simp
    show ?thesis
      using "2.IH"(2) [OF st _ Some run] h by (simp add: sum_dict_store [OF Some])
  qed
qed

lemma loop_returns:
  "\<forall>i \<in> set xs. carries_status i \<Longrightarrow> \<exists>s'. get_status_summary_loop s xs = Ok s'"
proof (induction s xs rule: get_status_summary_loop.induct)
  case (1 s)
  then show ?case by simp
next
  case (2 s i rest)
  from "2.prems" obtain st where st: "subscript i ''status'' = Ok st" and h: "hashable st"
    by (auto simp: carries_status_def split: res.splits)
  from "2.prems" have rest: "\<forall>i \<in> set rest. carries_status i"
    by simp
  show ?case
  proof (cases "dict_lookup s st")
    case None
    then show ?thesis
      using "2.IH"(1) [OF st _ None rest] st h by simp
  next
    case (Some n)
    then show ?thesis
      using "2.IH"(2) [OF st _ Some rest] st h by simp
  qed
qed

section \<open>Running a body step by step\<close>

lemma bind_res_simps:
  "bind_res (Ok x) f = f x"
  "bind_res (Raise ex) f = Raise ex"
  "bind_res (Stop out) f = Stop out"
  by (simp_all add: bind_res_def)

lemma try_except_simps:
  "try_except (Ok x) h = Ok x"
  "try_except (Raise ex) h = h"
  "try_except (Stop out) h = Stop out"
  by (simp_all add: try_except_def)

lemma bind_step_lift:
  "bind_step (lift (Ok x)) f h = f x h"
  "bind_step (lift (Raise ex)) f h = (Raise ex, h)"
  "bind_step (lift (Stop out)) f h = (Stop out, h)"
  by (simp_all add: bind_step_def lift_def)

lemma bind_step_api_call:
  "api_call e h uri meth dat = Ok r \<Longrightarrow>
   bind_step (do_api_call e uri meth dat) f h = f r (h @ [ApiCall uri meth dat])"
  by (simp add: bind_step_def do_api_call_def)

lemma bind_step_wait:
  "wait_for_action_end e h uri href state = Ok r \<Longrightarrow>
   bind_step (do_wait_for_action_end e uri href state) f h =
     f r (h @ [WaitForActionEnd uri href state])"
  by (simp add: bind_step_def do_wait_for_action_end_def)

lemma bind_step_wait_not_Ok:
  "wait_for_action_end e h uri href state = Raise ex \<Longrightarrow>
   bind_step (do_wait_for_action_end e uri href state) f h =
     (Raise ex, h @ [WaitForActionEnd uri href state])"
  "wait_for_action_end e h uri href state = Stop out \<Longrightarrow>
   bind_step (do_wait_for_action_end e uri href state) f h =
     (Stop out, h @ [WaitForActionEnd uri href state])"
  by (simp_all add: bind_step_def do_wait_for_action_end_def)

lemma fail_json_run: "fail_json m h = (Stop (FailJson m), h)"
  by (simp add: fail_json_def lift_def)

lemma lift_run: "lift r h = (r, h)"
  by (simp add: lift_def)

lemmas run_simps =
  bind_res_simps try_except_simps bind_step_lift bind_step_api_call bind_step_wait
  fail_json_run lift_run

section \<open>The domain precondition\<close>

lemmas example_simps =
  example_env_def scripted_def domains_response_def accepted_response_def
  accepted_no_link_response_def error_detail_response_def bad_request_response_def
  unavailable_response_def is_200_OK_def is_202_Accepted_def is_400_Bad_Request_def
  configured_domains_def location_href_def

lemma chkpoint_unknown_domain:
  assumes "api_call e [] (PStr (URI_DOMAIN_LIST e)) GET None = Ok chk"
      and "is_200_OK chk"
      and "configured_domains (resp_data chk) = Ok domains"
      and "PStr domain_name \<notin> set domains"
  shows "chkpoint_main e state domain_name chkpoint_name =
           (FailJson (str_format e (ERROR_REACH_STATE e @ '' '' @ ERROR_NOT_DOMAIN e)
                        [state, domain_name]),
            [ApiCall (PStr (URI_DOMAIN_LIST e)) GET None])"
  using assms
  by (simp add: chkpoint_main_def finish_def chkpoint_body_def Let_def run_simps)

lemma config_unknown_domain:
  assumes "api_call e [] (PStr (URI_DOMAIN_LIST e)) GET None = Ok chk"
      and "is_200_OK chk"
      and "configured_domains (resp_data chk) = Ok domains"
      and "PStr domain_name \<notin> set domains"
  shows "config_main e p state domain_name =
           (FailJson (str_format e (ERROR_REACH_STATE e @ '' '' @ ERROR_NOT_DOMAIN e)
                        [state, domain_name]),
            [ApiCall (PStr (URI_DOMAIN_LIST e)) GET None])"
  using assms
  by (simp add: config_main_def finish_def config_body_def Let_def run_simps)

text \<open>
  Claim C7. In the checkpoint module and in the domain-config module, for every requested
  state: when the domain list arrives with \<open>200 OK\<close> and the requested domain is not among
  the configured domains, the invocation ends in \<open>fail_json\<close> with the message
  \<open>(ERROR_REACH_STATE + " " + ERROR_NOT_DOMAIN).format(state, domain_name)\<close>, and the only
  call made to the device is the one GET of the domain list: no action is posted.
\<close>

theorem unknown_domain_fails_before_any_action:
  assumes "api_call e [] (PStr (URI_DOMAIN_LIST e)) GET None = Ok chk"
      and "is_200_OK chk"
      and "configured_domains (resp_data chk) = Ok domains"
      and "PStr domain_name \<notin> set domains"
  shows "chkpoint_main e state domain_name chkpoint_name =
           (FailJson (str_format e (ERROR_REACH_STATE e @ '' '' @ ERROR_NOT_DOMAIN e)
                        [state, domain_name]),
            [ApiCall (PStr (URI_DOMAIN_LIST e)) GET None])
         \<and> config_main e p state domain_name =
           (FailJson (str_format e (ERROR_REACH_STATE e @ '' '' @ ERROR_NOT_DOMAIN e)
                        [state, domain_name]),
            [ApiCall (PStr (URI_DOMAIN_LIST e)) GET None])"
  using chkpoint_unknown_domain [OF assms] config_unknown_domain [OF assms] by simp

theorem unknown_domain_fails_before_any_action_witness:
  "chkpoint_main (example_env [domains_response]) ''present'' ''prod'' ''cp1'' =
     (FailJson ''Cannot reach state present. No domain prod.'',
      [ApiCall (PStr ''/mgmt/domains/config/'') GET None])
   \<and> config_main (example_env [domains_response]) example_params ''present'' ''prod'' =
     (FailJson ''Cannot reach state present. No domain prod.'',
      [ApiCall (PStr ''/mgmt/domains/config/'') GET None])"
proof -
  let ?e = "example_env [domains_response]"
  have a: "api_call ?e [] (PStr (URI_DOMAIN_LIST ?e)) GET None = Ok domains_response"
    by (simp add: example_env_def scripted_def)
  have b: "is_200_OK domains_response"
    by (simp add: example_simps)
  have c: "configured_domains (resp_data domains_response) =
             Ok [PStr ''default'', PStr ''test'']"
    by (simp add: example_simps bind_res_simps)
  have d: "PStr ''prod'' \<notin> set [PStr ''default'', PStr ''test'']"
    by simp
  show ?thesis
    using unknown_domain_fails_before_any_action
            [OF a b c d, of "''present''" "''cp1''" example_params]
    by (simp add: example_env_def)
qed

section \<open>A failed status fetch in state saved\<close>

text \<open>
  Claim C8. In the domain-config module with state \<open>saved\<close>, when the domain exists and
  the domain-status GET is answered by anything other than \<open>200 OK\<close>, the module exits
  through \<open>exit_json\<close>: the shared result record has gained the field \<open>name\<close> and nothing
  else (no \<open>msg\<close>, \<open>changed\<close> or \<open>failed\<close> is written), and the only calls made are the
  two GETs: no save action is posted.
\<close>

theorem saved_status_fetch_failure_is_silent:
  assumes "api_call e [] (PStr (URI_DOMAIN_LIST e)) GET None = Ok chk"
      and "is_200_OK chk"
      and "configured_domains (resp_data chk) = Ok domains"
      and "PStr domain_name \<in> set domains"
      and "api_call e [ApiCall (PStr (URI_DOMAIN_LIST e)) GET None]
             (PStr (URI_DOMAIN_STATUS e)) GET None = Ok qds"
      and "\<not> is_200_OK qds"
  shows "config_main e p ''saved'' domain_name =
           (ExitJson (AList.update ''name'' (PStr domain_name) (result e)),
            [ApiCall (PStr (URI_DOMAIN_LIST e)) GET None,
             ApiCall (PStr (URI_DOMAIN_STATUS e)) GET None])"
  using assms
  by (simp add: config_main_def finish_def config_body_def Let_def config_saved_def run_simps)

theorem saved_status_fetch_failure_is_silent_witness:
  "config_main (example_env [domains_response, unavailable_response]) example_params
     ''saved'' ''test'' =
     (ExitJson [(''changed'', PBool False), (''name'', PStr ''test'')],
      [ApiCall (PStr ''/mgmt/domains/config/'') GET None,
       ApiCall (PStr ''/mgmt/status/default/DomainStatus'') GET None])"
proof -
  let ?e = "example_env [domains_response, unavailable_response]"
  have a: "api_call ?e [] (PStr (URI_DOMAIN_LIST ?e)) GET None = Ok domains_response"
    by (simp add: example_env_def scripted_def)
  have b: "is_200_OK domains_response"
    by (simp add: example_simps)
  have c: "configured_domains (resp_data domains_response) =
             Ok [PStr ''default'', PStr ''test'']"
    by (simp add: example_simps bind_res_simps)
  have d: "PStr ''test'' \<in> set [PStr ''default'', PStr ''test'']"
    by simp
  have f: "api_call ?e [ApiCall (PStr (URI_DOMAIN_LIST ?e)) GET None]
             (PStr (URI_DOMAIN_STATUS ?e)) GET None = Ok unavailable_response"
    by (simp add: example_env_def scripted_def)
  have g: "\<not> is_200_OK unavailable_response"
    by (simp add: example_simps)
  show ?thesis
    using saved_status_fetch_failure_is_silent [OF a b c d f g, of example_params]
    by (simp add: example_env_def)
qed

section \<open>The status summary\<close>

lemma dict_lookup_None_iff:
  "dict_lookup s k = None \<longleftrightarrow> key_norm k \<notin> set (map (\<lambda>p. key_norm (fst p)) s)"
proof (induction s)
  case Nil
  then show ?case by simp
next
  case (Cons kv s)
  obtain a v where kv: "kv = (a, v)"
    by (cases kv)
  show ?case
  proof (cases "key_norm a = key_norm k")
    case True
    then show ?thesis
      using kv by simp
  next
    case False
    then have "key_norm k \<noteq> key_norm a"
      by simp
    then show ?thesis
      using kv False Cons.IH by simp
  qed
qed

lemma dict_store_keys:
  "dict_lookup s k \<noteq> None \<Longrightarrow> map fst (dict_store k v s) = map fst s"
  by (induction s) auto

lemma loop_distinct:
  "get_status_summary_loop s xs = Ok s' \<Longrightarrow> distinct (map (\<lambda>p. key_norm (fst p)) s) \<Longrightarrow>
   distinct (map (\<lambda>p. key_norm (fst p)) s')"
proof (induction s xs arbitrary: s' rule: get_status_summary_loop.induct)
  case (1 s)
  then show ?case by simp
next
  case (2 s i rest)
  from "2.prems" obtain st where st: "subscript i ''status'' = Ok st" and h: "hashable st"
    by (auto split: res.splits if_splits)
  show ?case
  proof (cases "dict_lookup s st")
    case None
    with "2.prems" st h have run: "get_status_summary_loop (s @ [(st, 1)]) rest = Ok s'"
      by simp
    have "key_norm st \<notin> set (map (\<lambda>p. key_norm (fst p)) s)"
      using None dict_lookup_None_iff [of s st] by blast
    then have "distinct (map (\<lambda>p. key_norm (fst p)) (s @ [(st, 1)]))"
      using "2.prems"(2) by simp
    then show ?thesis
      using "2.IH"(1) [OF st _ None run] h by simp
  next
    case (Some n)
    with "2.prems" st h
    have run: "get_status_summary_loop (dict_store st (n + 1) s) rest = Ok s'"
      by simp
    have "map fst (dict_store st (n + 1) s) = map fst s"
      using Some by (simp add: dict_store_keys)
    then have "map key_norm (map fst (dict_store st (n + 1) s)) = map key_norm (map fst s)"
      by simp
    then have "map (\<lambda>p. key_norm (fst p)) (dict_store st (n + 1) s) =
               map (\<lambda>p. key_norm (fst p)) s"
      by (simp add: comp_def)
    then have "distinct (map (\<lambda>p. key_norm (fst p)) (dict_store st (n + 1) s))"
      using "2.prems"(2) by simp
    then show ?thesis
      using "2.IH"(2) [OF st _ Some run] h by simp
  qed
qed

text \<open>
  Claim C3. For every list of entries that each carry a (hashable) status,
  \<open>get_status_summary\<close> returns a dictionary that maps a key to the number of entries with
  that status, and has no entry for a key that is no entry's status; its keys are distinct;
  its values sum to the length of the list, which is the \<open>total\<close> that the summary of an
  import section reports next to it.
\<close>

theorem status_summary_counts_occurrences:
  assumes "\<forall>i \<in> set xs. carries_status i"
  shows "\<exists>s. get_status_summary xs = Ok s
           \<and> (\<forall>k. dict_lookup s k =
                    (if count_status k xs = 0 then None else Some (count_status k xs)))
           \<and> distinct (map (\<lambda>p. key_norm (fst p)) s)
           \<and> sum_list (map snd s) = int (length xs)
           \<and> summary_detail xs =
               Ok (PDict [(PStr ''summary'',
                           PDict [(PStr ''total'', PInt (int (length xs))),
                                  (PStr ''status'', summary_value s)]),
                          (PStr ''detail'', PList xs)])"
proof -
  from loop_returns [OF assms, of "[]"]
  obtain s where s: "get_status_summary xs = Ok s"
    by (auto simp: get_status_summary_def)
  then have run: "get_status_summary_loop [] xs = Ok s"
    by (simp add: get_status_summary_def)
  have "\<forall>k. dict_lookup s k =
               (if count_status k xs = 0 then None else Some (count_status k xs))"
    using loop_lookup [OF run] by (simp add: add_count_def)
  moreover have "distinct (map (\<lambda>p. key_norm (fst p)) s)"
    using loop_distinct [OF run] by simp
  moreover have "sum_list (map snd s) = int (length xs)"
    using loop_sum [OF run] by simp
  moreover have "summary_detail xs =
               Ok (PDict [(PStr ''summary'',
                           PDict [(PStr ''total'', PInt (int (length xs))),
                                  (PStr ''status'', summary_value s)]),
                          (PStr ''detail'', PList xs)])"
    by (simp add: summary_detail_def s bind_res_simps)
  ultimately show ?thesis
    using s by blast
qed

theorem status_summary_counts_occurrences_witness:
  "list_all carries_status example_entries
   \<and> get_status_summary example_entries = Ok [(PStr ''ok'', 2), (PStr ''error'', 1)]
   \<and> (\<exists>s. get_status_summary example_entries = Ok s \<and> sum_list (map snd s) = 3)"
proof -
  have a: "\<forall>i \<in> set example_entries. carries_status i"
    by (simp add: example_entries_def carries_status_def)
  have b: "get_status_summary example_entries = Ok [(PStr ''ok'', 2), (PStr ''error'', 1)]"
    by (simp add: example_entries_def get_status_summary_def)
  have c: "int (length example_entries) = 3"
    by (simp add: example_entries_def)
  have d: "list_all carries_status example_entries"
    using a by (simp add: list_all_iff)
  show ?thesis
    using status_summary_counts_occurrences [OF a] b c d by auto
qed

section \<open>Merging the intermediate result\<close>

lemma map_of_update_result:
  "map_of (update_result tmp_result res) x =
     (map_of res ++ map_of (rev (filter (\<lambda>(k, v). v \<noteq> PNone) tmp_result))) x"
proof (induction tmp_result arbitrary: res)
  case Nil
  then show ?case by simp
next
  case (Cons kv items)
  obtain k v where kv: "kv = (k, v)"
    by (cases kv)
  show ?case
  proof (cases "v = PNone")
    case True
    then show ?thesis
      using Cons.IH [of res] kv by simp
  next
    case False
    then show ?thesis
      using Cons.IH [of "AList.update k v res"] kv
      by (simp add: update_conv map_add_def split: option.splits)
  qed
qed

lemma update_result_frame:
  assumes "\<forall>v. (k, v) \<in> set tmp_result \<longrightarrow> v = PNone"
  shows "map_of (update_result tmp_result res) k = map_of res k"
proof -
  have "k \<notin> fst ` set (rev (filter (\<lambda>(k, v). v \<noteq> PNone) tmp_result))"
    using assms by auto
  then have "map_of (rev (filter (\<lambda>(k, v). v \<noteq> PNone) tmp_result)) k = None"
    by (simp add: map_of_eq_None_iff)
  then show ?thesis
    by (simp add: map_of_update_result map_add_def)
qed

lemma update_result_writes:
  assumes "distinct (map fst tmp_result)" and "(k, v) \<in> set tmp_result" and "v \<noteq> PNone"
  shows "map_of (update_result tmp_result res) k = Some v"
proof -
  let ?kept = "rev (filter (\<lambda>(k, v). v \<noteq> PNone) tmp_result)"
  have "distinct (map fst (filter (\<lambda>(k, v). v \<noteq> PNone) tmp_result))"
    using assms(1) by (simp add: distinct_map_filter)
  then have "distinct (map fst ?kept)"
    by (simp add: rev_map [symmetric])
  moreover have "(k, v) \<in> set ?kept"
    using assms(2,3) by simp
  ultimately have "map_of ?kept k = Some v"
    by (rule map_of_is_SomeI)
  then show ?thesis
    by (simp add: map_of_update_result map_add_def)
qed

lemma finish_Ok:
  "body [] = (Ok tmp_result, h) \<Longrightarrow>
   finish e body = (ExitJson (update_result tmp_result (result e)), h)"
  by (simp add: finish_def)

text \<open>
  Claim C10. Every \<open>main\<close> ends in the same merge: when its body ends normally with the
  intermediate result \<open>tmp_result\<close>, the module exits with the shared result record
  updated by \<open>update_result\<close>. A field that \<open>tmp_result\<close> holds with a value other than
  \<open>None\<close> is written with that value; a field that \<open>tmp_result\<close> lacks or holds as \<open>None\<close>
  keeps whatever the shared record had for it, or stays absent.
\<close>

theorem merge_copies_only_set_fields:
  "chkpoint_main e state domain_name chkpoint_name =
     finish e (chkpoint_body e state domain_name chkpoint_name)
   \<and> config_main e p state domain_name = finish e (config_body e p state domain_name)
   \<and> discovery_main e = finish e (discovery_body e)
   \<and> (body [] = (Ok tmp_result, h) \<longrightarrow>
        finish e body = (ExitJson (update_result tmp_result (result e)), h))
   \<and> ((\<forall>v. (k, v) \<in> set tmp_result \<longrightarrow> v = PNone) \<longrightarrow>
        map_of (update_result tmp_result res) k = map_of res k)
   \<and> (distinct (map fst tmp_result) \<and> (k', v') \<in> set tmp_result \<and> v' \<noteq> PNone \<longrightarrow>
        map_of (update_result tmp_result res) k' = Some v')"
  using finish_Ok [of body tmp_result h e] update_result_frame [of k tmp_result res]
    update_result_writes [of tmp_result k' v' res]
  by (simp add: chkpoint_main_def config_main_def discovery_main_def)

theorem merge_copies_only_set_fields_witness:
  "config_main (example_env [domains_response, unavailable_response]) example_params
     ''saved'' ''test'' =
     (ExitJson (update_result
        [(''name'', PStr ''test''), (''msg'', PNone), (''file'', PNone),
         (''changed'', PNone), (''failed'', PNone)] [(''changed'', PBool False)]),
      [ApiCall (PStr ''/mgmt/domains/config/'') GET None,
       ApiCall (PStr ''/mgmt/status/default/DomainStatus'') GET None])
   \<and> map_of (update_result
        [(''name'', PStr ''test''), (''msg'', PNone), (''file'', PNone),
         (''changed'', PNone), (''failed'', PNone)]
        [(''changed'', PBool False), (''failed'', PBool False)]) ''failed''
       = Some (PBool False)
   \<and> map_of (update_result
        [(''name'', PStr ''test''), (''msg'', PNone), (''file'', PNone),
         (''changed'', PNone), (''failed'', PNone)]
        [(''changed'', PBool False), (''failed'', PBool False)]) ''name''
       = Some (PStr ''test'')"
proof -
  let ?e = "example_env [domains_response, unavailable_response]"
  let ?tmp = "[(''name'', PStr ''test''), (''msg'', PNone), (''file'', PNone),
               (''changed'', PNone), (''failed'', PNone)]"
  let ?h = "[ApiCall (PStr ''/mgmt/domains/config/'') GET None,
             ApiCall (PStr ''/mgmt/status/default/DomainStatus'') GET None]"
  have a: "config_body ?e example_params ''saved'' ''test'' [] = (Ok ?tmp, ?h)"
    by (simp add: config_body_def Let_def config_saved_def run_simps example_simps
          bind_step_def do_api_call_def)
  have b: "\<forall>v. (''failed'', v) \<in> set ?tmp \<longrightarrow> v = PNone"
    by simp
  have c: "distinct (map fst ?tmp) \<and> (''name'', PStr ''test'') \<in> set ?tmp
           \<and> PStr ''test'' \<noteq> PNone"
    by simp
  have r: "result ?e = [(''changed'', PBool False)]"
    by (simp add: example_env_def)
  note T = merge_copies_only_set_fields
             [of ?e "''saved''" "''test''" "''cp1''" example_params
                 "config_body ?e example_params ''saved'' ''test''" ?tmp ?h
                 "''failed''" "[(''changed'', PBool False), (''failed'', PBool False)]"
                 "''name''" "PStr ''test''"]
  have t2: "config_main ?e example_params ''saved'' ''test'' =
              finish ?e (config_body ?e example_params ''saved'' ''test'')"
    by (rule conjunct1 [OF conjunct2 [OF T]])
  have t4: "finish ?e (config_body ?e example_params ''saved'' ''test'') =
              (ExitJson (update_result ?tmp (result ?e)), ?h)"
    by (rule mp [OF conjunct1 [OF conjunct2 [OF conjunct2 [OF conjunct2 [OF T]]]] a])
  have t5: "map_of (update_result ?tmp
              [(''changed'', PBool False), (''failed'', PBool False)]) ''failed'' =
            map_of [(''changed'', PBool False), (''failed'', PBool False)] ''failed''"
    by (rule mp [OF conjunct1 [OF conjunct2 [OF conjunct2 [OF conjunct2 [OF conjunct2 [OF T]]]]] b])
  have t6: "map_of (update_result ?tmp
              [(''changed'', PBool False), (''failed'', PBool False)]) ''name'' =
            Some (PStr ''test'')"
    by (rule mp [OF conjunct2 [OF conjunct2 [OF conjunct2 [OF conjunct2 [OF conjunct2 [OF T]]]]] c])
  have m: "config_main ?e example_params ''saved'' ''test'' =
             (ExitJson (update_result ?tmp [(''changed'', PBool False)]), ?h)"
    using t2 t4 r by (simp only:)
  have f: "map_of [(''changed'', PBool False), (''failed'', PBool False)] ''failed'' =
             Some (PBool False)"
    by simp
  show ?thesis
    using m t5 t6 f by (simp only:)
qed

section \<open>Domain discovery\<close>

lemma map_res_all_Ok:
  "\<forall>x \<in> set xs. f x = Ok (g x) \<Longrightarrow> map_res f xs = Ok (map g xs)"
  by (induction xs) (simp_all add: bind_res_simps)

lemma names_of_list:
  assumes "\<forall>d \<in> set ds. \<exists>n. subscript d ''name'' = Ok n"
  shows "map_res (\<lambda>d. subscript d ''name'') ds = Ok (map name_of ds)"
proof (rule map_res_all_Ok)
  show "\<forall>d \<in> set ds. subscript d ''name'' = Ok (name_of d)"
    using assms by (auto simp: name_of_def)
qed

lemma discovery_not_200:
  assumes "api_call e [] (PStr (URI_DOMAIN_LIST e)) GET None = Ok chk"
      and "\<not> is_200_OK chk"
  shows "discovery_main e = (ExitJson (result e), [ApiCall (PStr (URI_DOMAIN_LIST e)) GET None])"
  using assms by (simp add: discovery_main_def finish_def discovery_body_def run_simps)

lemma discovery_single:
  assumes "api_call e [] (PStr (URI_DOMAIN_LIST e)) GET None = Ok chk"
      and "is_200_OK chk"
      and "subscript (resp_data chk) ''domain'' = Ok (PDict kvs)"
      and "subscript (PDict kvs) ''name'' = Ok n"
  shows "discovery_main e =
           (ExitJson (AList.update ''msg'' (PList [n]) (result e)),
            [ApiCall (PStr (URI_DOMAIN_LIST e)) GET None])"
  using assms
  by (simp add: discovery_main_def finish_def discovery_body_def configured_domains_def
        run_simps)

lemma discovery_list:
  assumes "api_call e [] (PStr (URI_DOMAIN_LIST e)) GET None = Ok chk"
      and "is_200_OK chk"
      and "subscript (resp_data chk) ''domain'' = Ok (PList ds)"
      and "\<forall>d \<in> set ds. \<exists>n. subscript d ''name'' = Ok n"
  shows "discovery_main e =
           (ExitJson (AList.update ''msg'' (PList (map name_of ds)) (result e)),
            [ApiCall (PStr (URI_DOMAIN_LIST e)) GET None])"
  using assms(1,2,3) names_of_list [OF assms(4)]
  by (simp add: discovery_main_def finish_def discovery_body_def configured_domains_def
        run_simps)

text \<open>
  Claim C9. In the domain-discovery module, when the domain-list GET is answered by
  anything other than \<open>200 OK\<close>, the module exits through \<open>exit_json\<close> with the shared
  result record as it was: \<open>msg\<close> is not written and nothing fails. On \<open>200 OK\<close>, a body
  whose \<open>domain\<close> is a single object with a name gives \<open>msg\<close> the one-element list of that
  name, and a body whose \<open>domain\<close> is a list of objects with names gives \<open>msg\<close> the names
  of the members, in the order of the list.
\<close>

theorem discovery_reports_domains_only_on_200:
  assumes "api_call e [] (PStr (URI_DOMAIN_LIST e)) GET None = Ok chk"
  shows "(\<not> is_200_OK chk \<longrightarrow>
            discovery_main e =
              (ExitJson (result e), [ApiCall (PStr (URI_DOMAIN_LIST e)) GET None]))
       \<and> (is_200_OK chk \<and> subscript (resp_data chk) ''domain'' = Ok (PDict kvs)
            \<and> subscript (PDict kvs) ''name'' = Ok n \<longrightarrow>
            discovery_main e =
              (ExitJson (AList.update ''msg'' (PList [n]) (result e)),
               [ApiCall (PStr (URI_DOMAIN_LIST e)) GET None]))
       \<and> (is_200_OK chk \<and> subscript (resp_data chk) ''domain'' = Ok (PList ds)
            \<and> (\<forall>d \<in> set ds. \<exists>n. subscript d ''name'' = Ok n) \<longrightarrow>
            discovery_main e =
              (ExitJson (AList.update ''msg'' (PList (map name_of ds)) (result e)),
               [ApiCall (PStr (URI_DOMAIN_LIST e)) GET None]))"
  using discovery_not_200 [OF assms] discovery_single [OF assms, of kvs n]
    discovery_list [OF assms, of ds]
  by blast

theorem discovery_reports_domains_only_on_200_witness:
  "discovery_main (example_env [unavailable_response]) =
     (ExitJson [(''changed'', PBool False)],
      [ApiCall (PStr ''/mgmt/domains/config/'') GET None])
   \<and> discovery_main (example_env [single_domain_response]) =
     (ExitJson [(''changed'', PBool False), (''msg'', PList [PStr ''default''])],
      [ApiCall (PStr ''/mgmt/domains/config/'') GET None])
   \<and> discovery_main (example_env [domains_response]) =
     (ExitJson [(''changed'', PBool False),
                (''msg'', PList [PStr ''default'', PStr ''test''])],
      [ApiCall (PStr ''/mgmt/domains/config/'') GET None])"
proof -
  let ?e1 = "example_env [unavailable_response]"
  let ?e2 = "example_env [single_domain_response]"
  let ?e3 = "example_env [domains_response]"
  let ?ds = "[PDict [(PStr ''name'', PStr ''default'')], PDict [(PStr ''name'', PStr ''test'')]]"
  have a1: "api_call ?e1 [] (PStr (URI_DOMAIN_LIST ?e1)) GET None = Ok unavailable_response"
    by (simp add: example_env_def scripted_def)
  have b1: "\<not> is_200_OK unavailable_response"
    by (simp add: example_simps)
  have c1: "discovery_main ?e1 =
              (ExitJson (result ?e1), [ApiCall (PStr (URI_DOMAIN_LIST ?e1)) GET None])"
    using discovery_reports_domains_only_on_200 [OF a1] b1 by blast
  have a2: "api_call ?e2 [] (PStr (URI_DOMAIN_LIST ?e2)) GET None = Ok single_domain_response"
    by (simp add: example_env_def scripted_def)
  have b2: "is_200_OK single_domain_response
            \<and> subscript (resp_data single_domain_response) ''domain'' =
                Ok (PDict [(PStr ''name'', PStr ''default'')])
            \<and> subscript (PDict [(PStr ''name'', PStr ''default'')]) ''name'' =
                Ok (PStr ''default'')"
    by (simp add: example_simps single_domain_response_def)
  have c2: "discovery_main ?e2 =
              (ExitJson (AList.update ''msg'' (PList [PStr ''default'']) (result ?e2)),
               [ApiCall (PStr (URI_DOMAIN_LIST ?e2)) GET None])"
    using discovery_reports_domains_only_on_200
            [OF a2, of "[(PStr ''name'', PStr ''default'')]" "PStr ''default''"] b2
    by blast
  have a3: "api_call ?e3 [] (PStr (URI_DOMAIN_LIST ?e3)) GET None = Ok domains_response"
    by (simp add: example_env_def scripted_def)
  have b3: "is_200_OK domains_response
            \<and> subscript (resp_data domains_response) ''domain'' = Ok (PList ?ds)
            \<and> (\<forall>d \<in> set ?ds. \<exists>n. subscript d ''name'' = Ok n)"
    by (simp add: example_simps)
  have c3: "discovery_main ?e3 =
              (ExitJson (AList.update ''msg'' (PList (map name_of ?ds)) (result ?e3)),
               [ApiCall (PStr (URI_DOMAIN_LIST ?e3)) GET None])"
    using discovery_reports_domains_only_on_200 [OF a3, of _ _ ?ds] b3
    by blast
  show ?thesis
    using c1 c2 c3 by (simp add: example_env_def name_of_def)
qed

section \<open>Removing a checkpoint that does not exist\<close>

text \<open>
  Claim C5. In the checkpoint module with state \<open>absent\<close>, when the domain exists, check
  mode lets the action through, the RemoveCheckpoint POST is answered \<open>400 Bad Request\<close>
  and \<open>"Cannot find Configuration Checkpoint '<name>'."\<close> for the requested name is
  \<open>in\<close> the \<open>error\<close> field of the body, the module exits through \<open>exit_json\<close>. The branch
  writes \<open>name\<close>, \<open>domain\<close> and \<open>msg = IMMUTABLE_MESSAGE\<close> into the shared result record
  and neither \<open>changed\<close> nor \<open>failed\<close>: with a shared record that starts with \<open>changed\<close>
  false and without \<open>failed\<close>, the result has \<open>changed\<close> false, no \<open>failed\<close> and the
  immutable message. Two calls are made: the GET of the domain list and the POST.
\<close>

theorem absent_cannot_find_is_noop:
  assumes "api_call e [] (PStr (URI_DOMAIN_LIST e)) GET None = Ok chk"
      and "is_200_OK chk"
      and "configured_domains (resp_data chk) = Ok domains"
      and "PStr domain_name \<in> set domains"
      and "implement_check_mode e (result e) = Ok ()"
      and "api_call e [ApiCall (PStr (URI_DOMAIN_LIST e)) GET None]
             (PStr (str_format e (URI_ACTION e) [domain_name])) POST
             (Some (PDict [(PStr ''RemoveCheckpoint'',
                            PDict [(PStr ''ChkName'', PStr chkpoint_name)])])) = Ok rm"
      and "is_400_Bad_Request rm"
      and "subscript (resp_data rm) ''error'' = Ok err"
      and "py_in (cannot_find_phrase chkpoint_name) err = Ok True"
      and "map_of (result e) ''changed'' = Some (PBool False)"
      and "map_of (result e) ''failed'' = None"
  shows "\<exists>r. chkpoint_main e ''absent'' domain_name chkpoint_name =
               (ExitJson r,
                [ApiCall (PStr (URI_DOMAIN_LIST e)) GET None,
                 ApiCall (PStr (str_format e (URI_ACTION e) [domain_name])) POST
                   (Some (PDict [(PStr ''RemoveCheckpoint'',
                                  PDict [(PStr ''ChkName'', PStr chkpoint_name)])]))])
             \<and> r = AList.update ''msg'' (PStr (IMMUTABLE_MESSAGE e))
                    (AList.update ''domain'' (PStr domain_name)
                    (AList.update ''name'' (PStr chkpoint_name) (result e)))
             \<and> map_of r ''changed'' = Some (PBool False)
             \<and> map_of r ''failed'' = None
             \<and> map_of r ''msg'' = Some (PStr (IMMUTABLE_MESSAGE e))"
proof -
  have not_202: "\<not> is_202_Accepted rm" and not_200: "\<not> is_200_OK rm"
    using assms(7) by (simp_all add: is_400_Bad_Request_def is_202_Accepted_def is_200_OK_def)
  have "chkpoint_main e ''absent'' domain_name chkpoint_name =
          (ExitJson (AList.update ''msg'' (PStr (IMMUTABLE_MESSAGE e))
                    (AList.update ''domain'' (PStr domain_name)
                    (AList.update ''name'' (PStr chkpoint_name) (result e)))),
           [ApiCall (PStr (URI_DOMAIN_LIST e)) GET None,
            ApiCall (PStr (str_format e (URI_ACTION e) [domain_name])) POST
              (Some (PDict [(PStr ''RemoveCheckpoint'',
                             PDict [(PStr ''ChkName'', PStr chkpoint_name)])]))])"
    using assms(1-9) not_202 not_200
    by (simp add: chkpoint_main_def finish_def chkpoint_body_def Let_def chkpoint_absent_def
          run_simps)
  then show ?thesis
    using assms(10,11) by (simp add: update_conv)
qed

theorem absent_cannot_find_is_noop_witness:
  "py_in (cannot_find_phrase ''cpX'') (PList [PStr (cannot_find_phrase ''cpX'')]) = Ok True
   \<and> (\<exists>r. fst (chkpoint_main
               (example_env [domains_response,
                             bad_request_response (PList [PStr (cannot_find_phrase ''cpX'')])])
               ''absent'' ''test'' ''cpX'') = ExitJson r
          \<and> map_of r ''changed'' = Some (PBool False)
          \<and> map_of r ''failed'' = None
          \<and> map_of r ''msg'' = Some (PStr ''Nothing to do.''))"
proof -
  let ?err = "PList [PStr (cannot_find_phrase ''cpX'')]"
  let ?e = "example_env [domains_response, bad_request_response ?err]"
  have a: "api_call ?e [] (PStr (URI_DOMAIN_LIST ?e)) GET None = Ok domains_response"
    by (simp add: example_env_def scripted_def)
  have b: "is_200_OK domains_response"
    by (simp add: example_simps)
  have c: "configured_domains (resp_data domains_response) =
             Ok [PStr ''default'', PStr ''test'']"
    by (simp add: example_simps bind_res_simps)
  have d: "PStr ''test'' \<in> set [PStr ''default'', PStr ''test'']"
    by simp
  have f: "implement_check_mode ?e (result ?e) = Ok ()"
    by (simp add: example_env_def)
  have g: "api_call ?e [ApiCall (PStr (URI_DOMAIN_LIST ?e)) GET None]
             (PStr (str_format ?e (URI_ACTION ?e) [''test''])) POST
             (Some (PDict [(PStr ''RemoveCheckpoint'',
                            PDict [(PStr ''ChkName'', PStr ''cpX'')])]))
           = Ok (bad_request_response ?err)"
    by (simp add: example_env_def scripted_def)
  have h: "is_400_Bad_Request (bad_request_response ?err)"
    by (simp add: example_simps)
  have i: "subscript (resp_data (bad_request_response ?err)) ''error'' = Ok ?err"
    by (simp add: bad_request_response_def)
  have j: "py_in (cannot_find_phrase ''cpX'') ?err = Ok True"
    by simp
  have k: "map_of (result ?e) ''changed'' = Some (PBool False)"
    by (simp add: example_env_def)
  have l: "map_of (result ?e) ''failed'' = None"
    by (simp add: example_env_def)
  have m: "IMMUTABLE_MESSAGE ?e = ''Nothing to do.''"
    by (simp add: example_env_def)
  from absent_cannot_find_is_noop [OF a b c d f g h i j k l]
  obtain r where "fst (chkpoint_main ?e ''absent'' ''test'' ''cpX'') = ExitJson r"
    and "map_of r ''changed'' = Some (PBool False)"
    and "map_of r ''failed'' = None"
    and "map_of r ''msg'' = Some (PStr (IMMUTABLE_MESSAGE ?e))"
    by auto
  then show ?thesis
    using j m by auto
qed

section \<open>An accepted action is polled\<close>

lemma extends_lift: "extends (lift r)"
  by (simp add: extends_def lift_def)

lemma extends_fail_json: "extends (fail_json m)"
  by (simp add: extends_def fail_json_run)

lemma extends_api_call: "extends (do_api_call e uri meth dat)"
  by (simp add: extends_def do_api_call_def)

lemma extends_wait: "extends (do_wait_for_action_end e uri href state)"
  by (simp add: extends_def do_wait_for_action_end_def)

lemma extends_bind:
  assumes "extends m" and "\<And>x. extends (f x)"
  shows "extends (bind_step m f)"
  unfolding extends_def
proof
  fix h
  from assms(1) obtain r1 where r1: "snd (m h) = h @ r1"
    by (auto simp: extends_def)
  obtain v h' where mh: "m h = (v, h')"
    by (cases "m h")
  with r1 have h': "h' = h @ r1"
    by simp
  show "\<exists>rest. snd (bind_step m f h) = h @ rest"
  proof (cases v)
    case (Ok x)
    from assms(2) [of x] obtain r2 where "snd (f x h') = h' @ r2"
      by (auto simp: extends_def)
    then show ?thesis
      using mh Ok h' by (simp add: bind_step_def)
  next
    case (Raise ex)
    then show ?thesis
      using mh h' by (simp add: bind_step_def)
  next
    case (Stop out)
    then show ?thesis
      using mh h' by (simp add: bind_step_def)
  qed
qed

lemma extends_if:
  "extends a \<Longrightarrow> extends b \<Longrightarrow> extends (if c then a else b)"
  by simp

lemmas extends_intros =
  extends_bind extends_if extends_lift extends_fail_json extends_api_call extends_wait

lemma wait_is_next:
  assumes "\<And>x. extends (K x)"
  shows "take (Suc (Suc (length h)))
           (snd (bind_step (do_wait_for_action_end e uri href state) K (h @ [c]))) =
         h @ [c, WaitForActionEnd uri href state]"
proof (cases "wait_for_action_end e (h @ [c]) uri href state")
  case (Ok x)
  from assms [of x] obtain rest where
    "snd (K x (h @ [c, WaitForActionEnd uri href state])) =
       (h @ [c, WaitForActionEnd uri href state]) @ rest"
    unfolding extends_def by blast
  then show ?thesis
    using Ok by (simp add: bind_step_def do_wait_for_action_end_def)
next
  case (Raise ex)
  then show ?thesis
    by (simp add: bind_step_def do_wait_for_action_end_def)
next
  case (Stop out)
  then show ?thesis
    by (simp add: bind_step_def do_wait_for_action_end_def)
qed

lemma location_href_not_Stop: "location_href dat \<noteq> Stop out"
proof -
  have s: "\<And>v k. subscript v k \<noteq> Stop out"
  proof -
    fix v k show "subscript v k \<noteq> Stop out"
      by (cases v) (simp_all split: option.splits)
  qed
  show ?thesis
    unfolding location_href_def bind_res_def
    using s by (auto split: res.splits)
qed

lemma is_FailJson_handle_exception: "is_FailJson (handle_exception e ex)"
  by (simp add: handle_exception_def)

lemma snd_finish: "snd (finish e body) = snd (body [])"
  by (cases "body []") (auto simp: finish_def split: res.splits)

lemma finish_Raise:
  "body [] = (Raise ex, h) \<Longrightarrow> finish e body = (handle_exception e ex, h)"
  by (simp add: finish_def)

lemma chkpoint_present_polls:
  assumes "implement_check_mode e (result e) = Ok ()"
      and "api_call e h (PStr (str_format e (URI_ACTION e) [domain_name])) POST
             (Some (chkpoint_act_msg ''present'' chkpoint_name)) = Ok r"
      and "is_202_Accepted r"
      and "location_href (resp_data r) = Ok href"
  shows "take (Suc (Suc (length h)))
           (snd (chkpoint_present e state domain_name chkpoint_name tmp_result h)) =
         h @ [ApiCall (PStr (str_format e (URI_ACTION e) [domain_name])) POST
                (Some (chkpoint_act_msg ''present'' chkpoint_name)),
              WaitForActionEnd (str_format e (URI_ACTION e) [domain_name]) href state]"
  using assms
  apply (simp add: chkpoint_present_def chkpoint_act_msg_def run_simps)
  apply (rule wait_is_next)
  apply (intro extends_intros)
  done

lemma chkpoint_present_no_link:
  assumes "implement_check_mode e (result e) = Ok ()"
      and "api_call e h (PStr (str_format e (URI_ACTION e) [domain_name])) POST
             (Some (chkpoint_act_msg ''present'' chkpoint_name)) = Ok r"
      and "is_202_Accepted r"
      and "location_href (resp_data r) = Raise ex"
  shows "chkpoint_present e state domain_name chkpoint_name tmp_result h =
         (Raise ex,
          h @ [ApiCall (PStr (str_format e (URI_ACTION e) [domain_name])) POST
                 (Some (chkpoint_act_msg ''present'' chkpoint_name))])"
  using assms
  by (simp add: chkpoint_present_def chkpoint_act_msg_def run_simps)

lemma chkpoint_absent_polls:
  assumes "implement_check_mode e (result e) = Ok ()"
      and "api_call e h (PStr (str_format e (URI_ACTION e) [domain_name])) POST
             (Some (chkpoint_act_msg ''absent'' chkpoint_name)) = Ok r"
      and "is_202_Accepted r"
      and "location_href (resp_data r) = Ok href"
  shows "take (Suc (Suc (length h)))
           (snd (chkpoint_absent e state domain_name chkpoint_name tmp_result h)) =
         h @ [ApiCall (PStr (str_format e (URI_ACTION e) [domain_name])) POST
                (Some (chkpoint_act_msg ''absent'' chkpoint_name)),
              WaitForActionEnd (str_format e (URI_ACTION e) [domain_name]) href state]"
  using assms
  apply (simp add: chkpoint_absent_def chkpoint_act_msg_def run_simps)
  apply (rule wait_is_next)
  apply (intro extends_intros)
  done

lemma chkpoint_absent_no_link:
  assumes "implement_check_mode e (result e) = Ok ()"
      and "api_call e h (PStr (str_format e (URI_ACTION e) [domain_name])) POST
             (Some (chkpoint_act_msg ''absent'' chkpoint_name)) = Ok r"
      and "is_202_Accepted r"
      and "location_href (resp_data r) = Raise ex"
  shows "chkpoint_absent e state domain_name chkpoint_name tmp_result h =
         (Raise ex,
          h @ [ApiCall (PStr (str_format e (URI_ACTION e) [domain_name])) POST
                 (Some (chkpoint_act_msg ''absent'' chkpoint_name))])"
  using assms
  by (simp add: chkpoint_absent_def chkpoint_act_msg_def run_simps)

lemma chkpoint_restored_polls:
  assumes "implement_check_mode e (result e) = Ok ()"
      and "api_call e h (PStr (str_format e (URI_ACTION e) [domain_name])) POST
             (Some (chkpoint_act_msg ''restored'' chkpoint_name)) = Ok r"
      and "is_202_Accepted r"
      and "location_href (resp_data r) = Ok href"
  shows "take (Suc (Suc (length h)))
           (snd (chkpoint_restored e state domain_name chkpoint_name tmp_result h)) =
         h @ [ApiCall (PStr (str_format e (URI_ACTION e) [domain_name])) POST
                (Some (chkpoint_act_msg ''restored'' chkpoint_name)),
              WaitForActionEnd (str_format e (URI_ACTION e) [domain_name]) href state]"
  using assms
  apply (simp add: chkpoint_restored_def chkpoint_act_msg_def run_simps)
  apply (rule wait_is_next)
  apply (intro extends_intros)
  done

lemma chkpoint_restored_no_link:
  assumes "implement_check_mode e (result e) = Ok ()"
      and "api_call e h (PStr (str_format e (URI_ACTION e) [domain_name])) POST
             (Some (chkpoint_act_msg ''restored'' chkpoint_name)) = Ok r"
      and "is_202_Accepted r"
      and "location_href (resp_data r) = Raise ex"
  shows "chkpoint_restored e state domain_name chkpoint_name tmp_result h =
         (Raise ex,
          h @ [ApiCall (PStr (str_format e (URI_ACTION e) [domain_name])) POST
                 (Some (chkpoint_act_msg ''restored'' chkpoint_name))])"
  using assms
  by (simp add: chkpoint_restored_def chkpoint_act_msg_def run_simps)

lemma config_exported_polls:
  assumes "implement_check_mode e (result e) = Ok ()"
      and "api_call e h (PStr (str_format e (URI_ACTION e) [domain_name])) POST
             (Some (config_act_msg e p ''exported'')) = Ok r"
      and "is_202_Accepted r"
      and "location_href (resp_data r) = Ok href"
  shows "take (Suc (Suc (length h)))
           (snd (config_exported e p state domain_name tmp_result h)) =
         h @ [ApiCall (PStr (str_format e (URI_ACTION e) [domain_name])) POST
                (Some (config_act_msg e p ''exported'')),
              WaitForActionEnd (str_format e (URI_ACTION e) [domain_name]) href state]"
  using assms
  apply (simp add: config_exported_def config_act_msg_def Let_def run_simps)
  apply (rule wait_is_next)
  apply (intro extends_intros)
  done

lemma config_exported_no_link:
  assumes "implement_check_mode e (result e) = Ok ()"
      and "api_call e h (PStr (str_format e (URI_ACTION e) [domain_name])) POST
             (Some (config_act_msg e p ''exported'')) = Ok r"
      and "is_202_Accepted r"
      and "location_href (resp_data r) = Raise ex"
  shows "config_exported e p state domain_name tmp_result h =
         (Raise ex,
          h @ [ApiCall (PStr (str_format e (URI_ACTION e) [domain_name])) POST
                 (Some (config_act_msg e p ''exported''))])"
  using assms
  by (simp add: config_exported_def config_act_msg_def Let_def run_simps)

lemma config_reseted_polls:
  assumes "implement_check_mode e (result e) = Ok ()"
      and "api_call e h (PStr (str_format e (URI_ACTION e) [domain_name])) POST
             (Some (config_act_msg e p ''reseted'')) = Ok r"
      and "is_202_Accepted r"
      and "location_href (resp_data r) = Ok href"
  shows "take (Suc (Suc (length h)))
           (snd (config_reseted e state domain_name tmp_result h)) =
         h @ [ApiCall (PStr (str_format e (URI_ACTION e) [domain_name])) POST
                (Some (config_act_msg e p ''reseted'')),
              WaitForActionEnd (str_format e (URI_ACTION e) [domain_name]) href state]"
  using assms
  apply (simp add: config_reseted_def config_act_msg_def run_simps)
  apply (rule wait_is_next)
  apply (intro extends_intros)
  done

lemma config_reseted_no_link:
  assumes "implement_check_mode e (result e) = Ok ()"
      and "api_call e h (PStr (str_format e (URI_ACTION e) [domain_name])) POST
             (Some (config_act_msg e p ''reseted'')) = Ok r"
      and "is_202_Accepted r"
      and "location_href (resp_data r) = Raise ex"
  shows "config_reseted e state domain_name tmp_result h =
         (Raise ex,
          h @ [ApiCall (PStr (str_format e (URI_ACTION e) [domain_name])) POST
                 (Some (config_act_msg e p ''reseted''))])"
  using assms
  by (simp add: config_reseted_def config_act_msg_def run_simps)

lemma config_imported_polls:
  assumes "implement_check_mode e (result e) = Ok ()"
      and "api_call e h (PStr (str_format e (URI_ACTION e) [domain_name])) POST
             (Some (config_act_msg e p ''imported'')) = Ok r"
      and "is_202_Accepted r"
      and "location_href (resp_data r) = Ok href"
  shows "take (Suc (Suc (length h)))
           (snd (config_imported e p state domain_name tmp_result h)) =
         h @ [ApiCall (PStr (str_format e (URI_ACTION e) [domain_name])) POST
                (Some (config_act_msg e p ''imported'')),
              WaitForActionEnd (str_format e (URI_ACTION e) [domain_name]) href state]"
  using assms
  apply (simp add: config_imported_def config_act_msg_def run_simps)
  apply (rule wait_is_next)
  apply (intro extends_intros)
  done

lemma config_imported_no_link:
  assumes "implement_check_mode e (result e) = Ok ()"
      and "api_call e h (PStr (str_format e (URI_ACTION e) [domain_name])) POST
             (Some (config_act_msg e p ''imported'')) = Ok r"
      and "is_202_Accepted r"
      and "location_href (resp_data r) = Raise ex"
  shows "config_imported e p state domain_name tmp_result h =
         (Raise ex,
          h @ [ApiCall (PStr (str_format e (URI_ACTION e) [domain_name])) POST
                 (Some (config_act_msg e p ''imported''))])"
  using assms
  by (simp add: config_imported_def config_act_msg_def run_simps)

lemma wait_is_next2:
  assumes "\<And>x. extends (K x)"
  shows "take (Suc (Suc (Suc (length h))))
           (snd (bind_step (do_wait_for_action_end e uri href state) K (h @ [b, c]))) =
         h @ [b, c, WaitForActionEnd uri href state]"
  using wait_is_next [OF assms, where h = "h @ [b]" and c = c] by simp

lemma config_saved_polls:
  assumes "api_call e h (PStr (URI_DOMAIN_STATUS e)) GET None = Ok qds"
      and "is_200_OK qds"
      and "domain_save_needed domain_name (resp_data qds) = Ok save_needed"
      and "save_needed \<noteq> PStr ''off''"
      and "implement_check_mode e (result e) = Ok ()"
      and "api_call e (h @ [ApiCall (PStr (URI_DOMAIN_STATUS e)) GET None])
             (PStr (str_format e (URI_ACTION e) [domain_name])) POST
             (Some (config_act_msg e p ''saved'')) = Ok r"
      and "is_202_Accepted r"
      and "location_href (resp_data r) = Ok href"
  shows "take (Suc (Suc (Suc (length h))))
           (snd (config_saved e state domain_name tmp_result h)) =
         h @ [ApiCall (PStr (URI_DOMAIN_STATUS e)) GET None,
              ApiCall (PStr (str_format e (URI_ACTION e) [domain_name])) POST
                (Some (config_act_msg e p ''saved'')),
              WaitForActionEnd (str_format e (URI_ACTION e) [domain_name]) href state]"
  using assms
  apply (simp add: config_saved_def config_act_msg_def run_simps)
  apply (rule wait_is_next2)
  apply (intro extends_intros)
  done

lemma config_saved_no_link:
  assumes "api_call e h (PStr (URI_DOMAIN_STATUS e)) GET None = Ok qds"
      and "is_200_OK qds"
      and "domain_save_needed domain_name (resp_data qds) = Ok save_needed"
      and "save_needed \<noteq> PStr ''off''"
      and "implement_check_mode e (result e) = Ok ()"
      and "api_call e (h @ [ApiCall (PStr (URI_DOMAIN_STATUS e)) GET None])
             (PStr (str_format e (URI_ACTION e) [domain_name])) POST
             (Some (config_act_msg e p ''saved'')) = Ok r"
      and "is_202_Accepted r"
      and "location_href (resp_data r) = Raise ex"
  shows "config_saved e state domain_name tmp_result h =
         (Raise ex,
          h @ [ApiCall (PStr (URI_DOMAIN_STATUS e)) GET None,
               ApiCall (PStr (str_format e (URI_ACTION e) [domain_name])) POST
                 (Some (config_act_msg e p ''saved''))])"
  using assms
  by (simp add: config_saved_def config_act_msg_def run_simps)

lemma chkpoint_polls_or_fails:
  assumes "api_call e [] (PStr (URI_DOMAIN_LIST e)) GET None = Ok chk"
      and "is_200_OK chk"
      and "configured_domains (resp_data chk) = Ok domains"
      and "PStr domain_name \<in> set domains"
      and "implement_check_mode e (result e) = Ok ()"
      and "state = ''present'' \<or> state = ''absent'' \<or> state = ''restored''"
      and "api_call e [ApiCall (PStr (URI_DOMAIN_LIST e)) GET None]
             (PStr (str_format e (URI_ACTION e) [domain_name])) POST
             (Some (chkpoint_act_msg state chkpoint_name)) = Ok r"
      and "is_202_Accepted r"
  shows "polls_or_fails e (chkpoint_main e state domain_name chkpoint_name)
           [ApiCall (PStr (URI_DOMAIN_LIST e)) GET None,
            ApiCall (PStr (str_format e (URI_ACTION e) [domain_name])) POST
              (Some (chkpoint_act_msg state chkpoint_name))]
           (str_format e (URI_ACTION e) [domain_name]) state r"
proof -
  let ?c1 = "ApiCall (PStr (URI_DOMAIN_LIST e)) GET None"
  let ?tmp = "[(''name'', PStr chkpoint_name), (''domain'', PStr domain_name),
               (''msg'', PNone), (''changed'', PNone), (''failed'', PNone)]"
  let ?branch = "if state = ''present'' then
                   chkpoint_present e state domain_name chkpoint_name ?tmp
                 else if state = ''absent'' then
                   chkpoint_absent e state domain_name chkpoint_name ?tmp
                 else chkpoint_restored e state domain_name chkpoint_name ?tmp"
  have body: "chkpoint_body e state domain_name chkpoint_name [] = ?branch [?c1]"
    using assms(1-4,6) by (auto simp: chkpoint_body_def Let_def run_simps)
  show ?thesis
  proof (cases "location_href (resp_data r)")
    case (Ok href)
    have "take (Suc (Suc (length [?c1]))) (snd (?branch [?c1])) =
            [?c1] @ [ApiCall (PStr (str_format e (URI_ACTION e) [domain_name])) POST
                       (Some (chkpoint_act_msg state chkpoint_name)),
                     WaitForActionEnd (str_format e (URI_ACTION e) [domain_name]) href state]"
    proof -
      consider "state = ''present''" | "state = ''absent''" | "state = ''restored''"
        using assms(6) by blast
      then show ?thesis
      proof cases
        case 1
        then show ?thesis
          using chkpoint_present_polls [OF assms(5) _ assms(8) Ok, of "[?c1]"] assms(7)
          by simp
      next
        case 2
        then show ?thesis
          using chkpoint_absent_polls [OF assms(5) _ assms(8) Ok, of "[?c1]"] assms(7)
          by simp
      next
        case 3
        then show ?thesis
          using chkpoint_restored_polls [OF assms(5) _ assms(8) Ok, of "[?c1]"] assms(7)
          by simp
      qed
    qed
    then show ?thesis
      using Ok body by (simp add: polls_or_fails_def chkpoint_main_def snd_finish)
  next
    case (Raise ex)
    have "?branch [?c1] =
            (Raise ex,
             [?c1] @ [ApiCall (PStr (str_format e (URI_ACTION e) [domain_name])) POST
                        (Some (chkpoint_act_msg state chkpoint_name))])"
    proof -
      consider "state = ''present''" | "state = ''absent''" | "state = ''restored''"
        using assms(6) by blast
      then show ?thesis
      proof cases
        case 1
        then show ?thesis
          using chkpoint_present_no_link [OF assms(5) _ assms(8) Raise, of "[?c1]"] assms(7)
          by simp
      next
        case 2
        then show ?thesis
          using chkpoint_absent_no_link [OF assms(5) _ assms(8) Raise, of "[?c1]"] assms(7)
          by simp
      next
        case 3
        then show ?thesis
          using chkpoint_restored_no_link [OF assms(5) _ assms(8) Raise, of "[?c1]"] assms(7)
          by simp
      qed
    qed
    then have "chkpoint_body e state domain_name chkpoint_name [] =
                 (Raise ex,
                  [?c1, ApiCall (PStr (str_format e (URI_ACTION e) [domain_name])) POST
                          (Some (chkpoint_act_msg state chkpoint_name))])"
      using body by simp
    then show ?thesis
      using Raise
      by (simp add: polls_or_fails_def chkpoint_main_def finish_Raise
            is_FailJson_handle_exception)
  next
    case (Stop out)
    then show ?thesis
      using location_href_not_Stop by blast
  qed
qed

lemma config_polls_or_fails:
  assumes "api_call e [] (PStr (URI_DOMAIN_LIST e)) GET None = Ok chk"
      and "is_200_OK chk"
      and "configured_domains (resp_data chk) = Ok domains"
      and "PStr domain_name \<in> set domains"
      and "implement_check_mode e (result e) = Ok ()"
      and "state = ''exported'' \<or> state = ''reseted'' \<or> state = ''imported''"
      and "api_call e [ApiCall (PStr (URI_DOMAIN_LIST e)) GET None]
             (PStr (str_format e (URI_ACTION e) [domain_name])) POST
             (Some (config_act_msg e p state)) = Ok r"
      and "is_202_Accepted r"
  shows "polls_or_fails e (config_main e p state domain_name)
           [ApiCall (PStr (URI_DOMAIN_LIST e)) GET None,
            ApiCall (PStr (str_format e (URI_ACTION e) [domain_name])) POST
              (Some (config_act_msg e p state))]
           (str_format e (URI_ACTION e) [domain_name]) state r"
proof -
  let ?c1 = "ApiCall (PStr (URI_DOMAIN_LIST e)) GET None"
  let ?tmp = "[(''name'', PStr domain_name), (''msg'', PNone), (''file'', PNone),
               (''changed'', PNone), (''failed'', PNone)]"
  let ?branch = "if state = ''exported'' then config_exported e p state domain_name ?tmp
                 else if state = ''reseted'' then config_reseted e state domain_name ?tmp
                 else config_imported e p state domain_name ?tmp"
  have body: "config_body e p state domain_name [] = ?branch [?c1]"
    using assms(1-4,6) by (auto simp: config_body_def Let_def run_simps)
  show ?thesis
  proof (cases "location_href (resp_data r)")
    case (Ok href)
    have "take (Suc (Suc (length [?c1]))) (snd (?branch [?c1])) =
            [?c1] @ [ApiCall (PStr (str_format e (URI_ACTION e) [domain_name])) POST
                       (Some (config_act_msg e p state)),
                     WaitForActionEnd (str_format e (URI_ACTION e) [domain_name]) href state]"
    proof -
      consider "state = ''exported''" | "state = ''reseted''" | "state = ''imported''"
        using assms(6) by blast
      then show ?thesis
      proof cases
        case 1
        then show ?thesis
          using config_exported_polls [OF assms(5) _ assms(8) Ok, of "[?c1]"] assms(7)
          by simp
      next
        case 2
        then show ?thesis
          using config_reseted_polls [OF assms(5) _ assms(8) Ok, of "[?c1]"] assms(7)
          by simp
      next
        case 3
        then show ?thesis
          using config_imported_polls [OF assms(5) _ assms(8) Ok, of "[?c1]"] assms(7)
          by simp
      qed
    qed
    then show ?thesis
      using Ok body by (simp add: polls_or_fails_def config_main_def snd_finish)
  next
    case (Raise ex)
    have "?branch [?c1] =
            (Raise ex,
             [?c1] @ [ApiCall (PStr (str_format e (URI_ACTION e) [domain_name])) POST
                        (Some (config_act_msg e p state))])"
    proof -
      consider "state = ''exported''" | "state = ''reseted''" | "state = ''imported''"
        using assms(6) by blast
      then show ?thesis
      proof cases
        case 1
        then show ?thesis
          using config_exported_no_link [OF assms(5) _ assms(8) Raise, of "[?c1]"] assms(7)
          by simp
      next
        case 2
        then show ?thesis
          using config_reseted_no_link [OF assms(5) _ assms(8) Raise, of "[?c1]"] assms(7)
          by simp
      next
        case 3
        then show ?thesis
          using config_imported_no_link [OF assms(5) _ assms(8) Raise, of "[?c1]"] assms(7)
          by simp
      qed
    qed
    then have "config_body e p state domain_name [] =
                 (Raise ex,
                  [?c1, ApiCall (PStr (str_format e (URI_ACTION e) [domain_name])) POST
                          (Some (config_act_msg e p state))])"
      using body by simp
    then show ?thesis
      using Raise
      by (simp add: polls_or_fails_def config_main_def finish_Raise
            is_FailJson_handle_exception)
  next
    case (Stop out)
    then show ?thesis
      using location_href_not_Stop by blast
  qed
qed

lemma config_saved_polls_or_fails:
  assumes "api_call e [] (PStr (URI_DOMAIN_LIST e)) GET None = Ok chk"
      and "is_200_OK chk"
      and "configured_domains (resp_data chk) = Ok domains"
      and "PStr domain_name \<in> set domains"
      and "implement_check_mode e (result e) = Ok ()"
      and "api_call e [ApiCall (PStr (URI_DOMAIN_LIST e)) GET None]
             (PStr (URI_DOMAIN_STATUS e)) GET None = Ok qds"
      and "is_200_OK qds"
      and "domain_save_needed domain_name (resp_data qds) = Ok save_needed"
      and "save_needed \<noteq> PStr ''off''"
      and "api_call e [ApiCall (PStr (URI_DOMAIN_LIST e)) GET None,
                       ApiCall (PStr (URI_DOMAIN_STATUS e)) GET None]
             (PStr (str_format e (URI_ACTION e) [domain_name])) POST
             (Some (config_act_msg e p ''saved'')) = Ok r"
      and "is_202_Accepted r"
  shows "polls_or_fails e (config_main e p ''saved'' domain_name)
           [ApiCall (PStr (URI_DOMAIN_LIST e)) GET None,
            ApiCall (PStr (URI_DOMAIN_STATUS e)) GET None,
            ApiCall (PStr (str_format e (URI_ACTION e) [domain_name])) POST
              (Some (config_act_msg e p ''saved''))]
           (str_format e (URI_ACTION e) [domain_name]) ''saved'' r"
proof -
  let ?c1 = "ApiCall (PStr (URI_DOMAIN_LIST e)) GET None"
  let ?tmp = "[(''name'', PStr domain_name), (''msg'', PNone), (''file'', PNone),
               (''changed'', PNone), (''failed'', PNone)]"
  have body: "config_body e p ''saved'' domain_name [] =
                config_saved e ''saved'' domain_name ?tmp [?c1]"
    using assms(1-4) by (simp add: config_body_def Let_def run_simps)
  have post: "api_call e ([?c1] @ [ApiCall (PStr (URI_DOMAIN_STATUS e)) GET None])
                (PStr (str_format e (URI_ACTION e) [domain_name])) POST
                (Some (config_act_msg e p ''saved'')) = Ok r"
    using assms(10) by simp
  show ?thesis
  proof (cases "location_href (resp_data r)")
    case (Ok href)
    show ?thesis
      using config_saved_polls
              [OF assms(6,7,8,9,5) post assms(11) Ok, of "''saved''" ?tmp]
            Ok body
      by (simp add: polls_or_fails_def config_main_def snd_finish)
  next
    case (Raise ex)
    show ?thesis
      using config_saved_no_link
              [OF assms(6,7,8,9,5) post assms(11) Raise, of "''saved''" ?tmp]
            Raise body
      by (simp add: polls_or_fails_def config_main_def finish_Raise
            is_FailJson_handle_exception)
  next
    case (Stop out)
    then show ?thesis
      using location_href_not_Stop by blast
  qed
qed

text \<open>
  Claim C6. In both modules, once the domain is known to exist and check mode lets the
  action through, an action POST answered \<open>202 Accepted\<close> has one of two continuations
  (\<open>polls_or_fails\<close>): when the body holds \<open>_links.location.href\<close>, the next call of the
  invocation is \<open>wait_for_action_end\<close> on that link; when the link cannot be read, the
  invocation ends right after the POST in \<open>fail_json\<close>, through the handler of the
  exception that reading the link raised. This holds for the three states of the
  checkpoint module and for the states \<open>exported\<close>, \<open>reseted\<close>, \<open>imported\<close> and (after a
  domain status that asks for a save) \<open>saved\<close> of the domain-config module.
\<close>

theorem accepted_action_is_polled_or_fatal:
  assumes "api_call e [] (PStr (URI_DOMAIN_LIST e)) GET None = Ok chk"
      and "is_200_OK chk"
      and "configured_domains (resp_data chk) = Ok domains"
      and "PStr domain_name \<in> set domains"
      and "implement_check_mode e (result e) = Ok ()"
  shows "((state = ''present'' \<or> state = ''absent'' \<or> state = ''restored'')
          \<and> api_call e [ApiCall (PStr (URI_DOMAIN_LIST e)) GET None]
               (PStr (str_format e (URI_ACTION e) [domain_name])) POST
               (Some (chkpoint_act_msg state chkpoint_name)) = Ok ra
          \<and> is_202_Accepted ra \<longrightarrow>
          polls_or_fails e (chkpoint_main e state domain_name chkpoint_name)
            [ApiCall (PStr (URI_DOMAIN_LIST e)) GET None,
             ApiCall (PStr (str_format e (URI_ACTION e) [domain_name])) POST
               (Some (chkpoint_act_msg state chkpoint_name))]
            (str_format e (URI_ACTION e) [domain_name]) state ra)
       \<and> ((cstate = ''exported'' \<or> cstate = ''reseted'' \<or> cstate = ''imported'')
          \<and> api_call e [ApiCall (PStr (URI_DOMAIN_LIST e)) GET None]
               (PStr (str_format e (URI_ACTION e) [domain_name])) POST
               (Some (config_act_msg e p cstate)) = Ok rb
          \<and> is_202_Accepted rb \<longrightarrow>
          polls_or_fails e (config_main e p cstate domain_name)
            [ApiCall (PStr (URI_DOMAIN_LIST e)) GET None,
             ApiCall (PStr (str_format e (URI_ACTION e) [domain_name])) POST
               (Some (config_act_msg e p cstate))]
            (str_format e (URI_ACTION e) [domain_name]) cstate rb)
       \<and> (api_call e [ApiCall (PStr (URI_DOMAIN_LIST e)) GET None]
             (PStr (URI_DOMAIN_STATUS e)) GET None = Ok qds
          \<and> is_200_OK qds
          \<and> domain_save_needed domain_name (resp_data qds) = Ok save_needed
          \<and> save_needed \<noteq> PStr ''off''
          \<and> api_call e [ApiCall (PStr (URI_DOMAIN_LIST e)) GET None,
                         ApiCall (PStr (URI_DOMAIN_STATUS e)) GET None]
               (PStr (str_format e (URI_ACTION e) [domain_name])) POST
               (Some (config_act_msg e p ''saved'')) = Ok rc
          \<and> is_202_Accepted rc \<longrightarrow>
          polls_or_fails e (config_main e p ''saved'' domain_name)
            [ApiCall (PStr (URI_DOMAIN_LIST e)) GET None,
             ApiCall (PStr (URI_DOMAIN_STATUS e)) GET None,
             ApiCall (PStr (str_format e (URI_ACTION e) [domain_name])) POST
               (Some (config_act_msg e p ''saved''))]
            (str_format e (URI_ACTION e) [domain_name]) ''saved'' rc)"
  using chkpoint_polls_or_fails [OF assms, of state chkpoint_name ra]
    config_polls_or_fails [OF assms, of cstate p rb]
    config_saved_polls_or_fails [OF assms, of qds save_needed p rc]
  by blast

theorem accepted_action_is_polled_or_fatal_witness:
  "take 3 (snd (chkpoint_main (example_env [domains_response, accepted_response])
                  ''present'' ''test'' ''cp1'')) =
     [ApiCall (PStr ''/mgmt/domains/config/'') GET None,
      ApiCall (PStr ''/mgmt/actionqueue/test'') POST
        (Some (PDict [(PStr ''SaveCheckpoint'', PDict [(PStr ''ChkName'', PStr ''cp1'')])])),
      WaitForActionEnd ''/mgmt/actionqueue/test'' (PStr ''/mgmt/actionqueue/test/pending/1'')
        ''present'']
   \<and> chkpoint_main (example_env [domains_response, accepted_no_link_response])
       ''present'' ''test'' ''cp1'' =
     (FailJson ''Unknown error. exception'',
      [ApiCall (PStr ''/mgmt/domains/config/'') GET None,
       ApiCall (PStr ''/mgmt/actionqueue/test'') POST
         (Some (PDict [(PStr ''SaveCheckpoint'', PDict [(PStr ''ChkName'', PStr ''cp1'')])]))])
   \<and> take 3 (snd (config_main (example_env [domains_response, accepted_response])
                    example_params ''reseted'' ''test'')) =
     [ApiCall (PStr ''/mgmt/domains/config/'') GET None,
      ApiCall (PStr ''/mgmt/actionqueue/test'') POST
        (Some (PDict [(PStr ''ResetThisDomain'', PDict [])])),
      WaitForActionEnd ''/mgmt/actionqueue/test'' (PStr ''/mgmt/actionqueue/test/pending/1'')
        ''reseted'']
   \<and> take 4 (snd (config_main
                    (example_env [domains_response, save_needed_response, accepted_response])
                    example_params ''saved'' ''test'')) =
     [ApiCall (PStr ''/mgmt/domains/config/'') GET None,
      ApiCall (PStr ''/mgmt/status/default/DomainStatus'') GET None,
      ApiCall (PStr ''/mgmt/actionqueue/test'') POST
        (Some (PDict [(PStr ''SaveConfig'', PDict [])])),
      WaitForActionEnd ''/mgmt/actionqueue/test'' (PStr ''/mgmt/actionqueue/test/pending/1'')
        ''saved'']"
proof -
  let ?c1 = "ApiCall (PStr ''/mgmt/domains/config/'') GET None"
  let ?uri = "''/mgmt/actionqueue/test''"
  have b: "is_200_OK domains_response"
    by (simp add: example_simps)
  have c: "configured_domains (resp_data domains_response) =
             Ok [PStr ''default'', PStr ''test'']"
    by (simp add: example_simps bind_res_simps)
  have d: "PStr ''test'' \<in> set [PStr ''default'', PStr ''test'']"
    by simp
  have acc: "is_202_Accepted accepted_response"
    "is_202_Accepted accepted_no_link_response"
    by (simp_all add: example_simps)
  have href: "location_href (resp_data accepted_response) =
                Ok (PStr ''/mgmt/actionqueue/test/pending/1'')"
    by (simp add: example_simps bind_res_simps)
  have no_href: "location_href (resp_data accepted_no_link_response) =
                   Raise (KeyError (PStr ''_links''))"
    by (simp add: example_simps bind_res_simps)
  define ea where ea: "ea = example_env [domains_response, accepted_response]"
  define eb where eb: "eb = example_env [domains_response, accepted_no_link_response]"
  define ec where ec: "ec = example_env [domains_response, save_needed_response, accepted_response]"
  have vals: "URI_DOMAIN_LIST ea = ''/mgmt/domains/config/''"
    "URI_DOMAIN_LIST eb = ''/mgmt/domains/config/''"
    "URI_DOMAIN_LIST ec = ''/mgmt/domains/config/''"
    "URI_DOMAIN_STATUS ec = ''/mgmt/status/default/DomainStatus''"
    "str_format ea (URI_ACTION ea) [''test''] = ?uri"
    "str_format eb (URI_ACTION eb) [''test''] = ?uri"
    "str_format ec (URI_ACTION ec) [''test''] = ?uri"
    by (simp_all add: ea eb ec example_env_def)
  have a: "api_call ea [] (PStr (URI_DOMAIN_LIST ea)) GET None = Ok domains_response"
    "api_call eb [] (PStr (URI_DOMAIN_LIST eb)) GET None = Ok domains_response"
    "api_call ec [] (PStr (URI_DOMAIN_LIST ec)) GET None = Ok domains_response"
    by (simp_all add: ea eb ec example_env_def scripted_def)
  have f: "implement_check_mode ea (result ea) = Ok ()"
    "implement_check_mode eb (result eb) = Ok ()"
    "implement_check_mode ec (result ec) = Ok ()"
    by (simp_all add: ea eb ec example_env_def)
  have post1: "api_call ea [ApiCall (PStr (URI_DOMAIN_LIST ea)) GET None]
                 (PStr (str_format ea (URI_ACTION ea) [''test''])) POST
                 (Some (chkpoint_act_msg ''present'' ''cp1'')) = Ok accepted_response"
    by (simp add: ea example_env_def scripted_def)
  have post2: "api_call eb [ApiCall (PStr (URI_DOMAIN_LIST eb)) GET None]
                 (PStr (str_format eb (URI_ACTION eb) [''test''])) POST
                 (Some (chkpoint_act_msg ''present'' ''cp1'')) = Ok accepted_no_link_response"
    by (simp add: eb example_env_def scripted_def)
  have post3: "api_call ea [ApiCall (PStr (URI_DOMAIN_LIST ea)) GET None]
                 (PStr (str_format ea (URI_ACTION ea) [''test''])) POST
                 (Some (config_act_msg ea example_params ''reseted'')) = Ok accepted_response"
    by (simp add: ea example_env_def scripted_def)
  have qds: "api_call ec [ApiCall (PStr (URI_DOMAIN_LIST ec)) GET None]
               (PStr (URI_DOMAIN_STATUS ec)) GET None = Ok save_needed_response"
    by (simp add: ec example_env_def scripted_def)
  have qds_ok: "is_200_OK save_needed_response"
    by (simp add: save_needed_response_def is_200_OK_def)
  have sn: "domain_save_needed ''test'' (resp_data save_needed_response) = Ok (PStr ''on'')"
    by (simp add: save_needed_response_def domain_save_needed_def bind_res_simps)
  have post4: "api_call ec [ApiCall (PStr (URI_DOMAIN_LIST ec)) GET None,
                             ApiCall (PStr (URI_DOMAIN_STATUS ec)) GET None]
                 (PStr (str_format ec (URI_ACTION ec) [''test''])) POST
                 (Some (config_act_msg ec example_params ''saved'')) = Ok accepted_response"
    by (simp add: ec example_env_def scripted_def)
  note T1 = accepted_action_is_polled_or_fatal
              [OF a(1) b c d f(1), where state = "''present''" and chkpoint_name = "''cp1''"
                 and ra = accepted_response and cstate = "''reseted''"
                 and p = example_params and rb = accepted_response]
  note T2 = accepted_action_is_polled_or_fatal
              [OF a(2) b c d f(2), where state = "''present''" and chkpoint_name = "''cp1''"
                 and ra = accepted_no_link_response]
  note T3 = accepted_action_is_polled_or_fatal
              [OF a(3) b c d f(3), where qds = save_needed_response
                 and save_needed = "PStr ''on''" and p = example_params
                 and rc = accepted_response]
  have p1: "polls_or_fails ea (chkpoint_main ea ''present'' ''test'' ''cp1'')
              [ApiCall (PStr (URI_DOMAIN_LIST ea)) GET None,
               ApiCall (PStr (str_format ea (URI_ACTION ea) [''test''])) POST
                 (Some (chkpoint_act_msg ''present'' ''cp1''))]
              (str_format ea (URI_ACTION ea) [''test'']) ''present'' accepted_response"
    using conjunct1 [OF T1] post1 acc(1) by blast
  have p2: "polls_or_fails eb (chkpoint_main eb ''present'' ''test'' ''cp1'')
              [ApiCall (PStr (URI_DOMAIN_LIST eb)) GET None,
               ApiCall (PStr (str_format eb (URI_ACTION eb) [''test''])) POST
                 (Some (chkpoint_act_msg ''present'' ''cp1''))]
              (str_format eb (URI_ACTION eb) [''test'']) ''present''
              accepted_no_link_response"
    using conjunct1 [OF T2] post2 acc(2) by blast
  have p3: "polls_or_fails ea (config_main ea example_params ''reseted'' ''test'')
              [ApiCall (PStr (URI_DOMAIN_LIST ea)) GET None,
               ApiCall (PStr (str_format ea (URI_ACTION ea) [''test''])) POST
                 (Some (config_act_msg ea example_params ''reseted''))]
              (str_format ea (URI_ACTION ea) [''test'']) ''reseted'' accepted_response"
    using conjunct1 [OF conjunct2 [OF T1]] post3 acc(1) by blast
  have p4: "polls_or_fails ec (config_main ec example_params ''saved'' ''test'')
              [ApiCall (PStr (URI_DOMAIN_LIST ec)) GET None,
               ApiCall (PStr (URI_DOMAIN_STATUS ec)) GET None,
               ApiCall (PStr (str_format ec (URI_ACTION ec) [''test''])) POST
                 (Some (config_act_msg ec example_params ''saved''))]
              (str_format ec (URI_ACTION ec) [''test'']) ''saved'' accepted_response"
    using conjunct2 [OF conjunct2 [OF T3]] qds qds_ok sn post4 acc(1) by blast
  have q1: "take 3 (snd (chkpoint_main ea ''present'' ''test'' ''cp1'')) =
              [?c1,
               ApiCall (PStr ?uri) POST
                 (Some (PDict [(PStr ''SaveCheckpoint'',
                                PDict [(PStr ''ChkName'', PStr ''cp1'')])])),
               WaitForActionEnd ?uri (PStr ''/mgmt/actionqueue/test/pending/1'')
                 ''present'']"
    using p1 by (simp add: polls_or_fails_def href vals chkpoint_act_msg_def
                   eval_nat_numeral)
  have q2: "chkpoint_main eb ''present'' ''test'' ''cp1'' =
              (FailJson ''Unknown error. exception'',
               [?c1,
                ApiCall (PStr ?uri) POST
                  (Some (PDict [(PStr ''SaveCheckpoint'',
                                 PDict [(PStr ''ChkName'', PStr ''cp1'')])]))])"
    using p2 by (simp add: polls_or_fails_def no_href vals chkpoint_act_msg_def
                   handle_exception_def eb example_env_def)
  have q3: "take 3 (snd (config_main ea example_params ''reseted'' ''test'')) =
              [?c1,
               ApiCall (PStr ?uri) POST (Some (PDict [(PStr ''ResetThisDomain'', PDict [])])),
               WaitForActionEnd ?uri (PStr ''/mgmt/actionqueue/test/pending/1'')
                 ''reseted'']"
    using p3 by (simp add: polls_or_fails_def href vals config_act_msg_def
                   eval_nat_numeral)
  have q4: "take 4 (snd (config_main ec example_params ''saved'' ''test'')) =
              [?c1,
               ApiCall (PStr ''/mgmt/status/default/DomainStatus'') GET None,
               ApiCall (PStr ?uri) POST (Some (PDict [(PStr ''SaveConfig'', PDict [])])),
               WaitForActionEnd ?uri (PStr ''/mgmt/actionqueue/test/pending/1'')
                 ''saved'']"
    using p4 by (simp add: polls_or_fails_def href vals config_act_msg_def
                   eval_nat_numeral)
  show ?thesis
  using q1 q2 q3 q4 unfolding ea eb ec by (intro conjI)
qed

section \<open>Classifying the error of a checkpoint that already exists\<close>

lemma is_substring_iff: "is_substring needle hay \<longleftrightarrow> (\<exists>ps ss. hay = ps @ needle @ ss)"
proof (induction hay)
  case Nil
  then show ?case by auto
next
  case (Cons c cs)
  have pre: "take (length needle) (c # cs) = needle \<longleftrightarrow> (\<exists>ss. c # cs = needle @ ss)"
  proof
    assume "take (length needle) (c # cs) = needle"
    then have "c # cs = needle @ drop (length needle) (c # cs)"
      by (metis append_take_drop_id)
    then show "\<exists>ss. c # cs = needle @ ss" ..
  next
    assume "\<exists>ss. c # cs = needle @ ss"
    then show "take (length needle) (c # cs) = needle"
      by auto
  qed
  show ?case
  proof
    assume "is_substring needle (c # cs)"
    then consider "\<exists>ss. c # cs = needle @ ss" | "\<exists>ps ss. cs = ps @ needle @ ss"
      using pre Cons.IH by auto
    then show "\<exists>ps ss. c # cs = ps @ needle @ ss"
    proof cases
      case 1
      then obtain ss where "c # cs = [] @ needle @ ss"
        by auto
      then show ?thesis by blast
    next
      case 2
      then obtain ps ss where "c # cs = (c # ps) @ needle @ ss"
        by auto
      then show ?thesis by blast
    qed
  next
    assume "\<exists>ps ss. c # cs = ps @ needle @ ss"
    then obtain ps ss where eq: "c # cs = ps @ needle @ ss"
      by blast
    show "is_substring needle (c # cs)"
    proof (cases ps)
      case Nil
      then have "\<exists>ss. c # cs = needle @ ss"
        using eq by auto
      then show ?thesis
        using pre by simp
    next
      case (Cons p ps')
      then have "cs = ps' @ needle @ ss"
        using eq by simp
      then show ?thesis
        using Cons.IH by auto
    qed
  qed
qed

text \<open>
  A name between two marks \<open>q\<close>, with text before and after that has no mark: when one
  such phrase occurs inside another whose name has no mark, the names are equal.
\<close>

lemma first_mark_split:
  "q \<notin> set xs \<Longrightarrow> q \<notin> set xs' \<Longrightarrow> xs @ q # ys = xs' @ q # ys' \<Longrightarrow>
   xs = xs' \<and> ys = ys'"
proof (induction xs arbitrary: xs')
  case Nil
  then show ?case
    by (cases xs') auto
next
  case (Cons a as)
  then show ?case
    by (cases xs') auto
qed

lemma quoted_name_match:
  assumes A: "q \<notin> set A" and B: "q \<notin> set B" and m: "q \<notin> set m"
      and eq: "A @ q # m @ q # B = ps @ (A @ q # n @ q # B) @ ss"
  shows "n = m"
proof -
  define cnt where "cnt = (\<lambda>xs. length (filter (\<lambda>c. c = q) xs))"
  have cnt_app: "\<And>xs ys. cnt (xs @ ys) = cnt xs + cnt ys"
    and cnt_q: "\<And>xs. cnt (q # xs) = Suc (cnt xs)"
    by (simp_all add: cnt_def)
  have cnt_zero: "\<And>xs. cnt xs = 0 \<longleftrightarrow> q \<notin> set xs"
    by (auto simp: cnt_def filter_empty_conv)
  have zero: "cnt A = 0" "cnt B = 0" "cnt m = 0"
    using A B m by (simp_all add: cnt_zero)
  have l: "cnt (A @ q # m @ q # B) = 2"
    by (simp add: cnt_app cnt_q zero)
  have r: "cnt (ps @ (A @ q # n @ q # B) @ ss) = cnt ps + cnt n + cnt ss + 2"
    by (simp add: cnt_app cnt_q zero)
  have "cnt (A @ q # m @ q # B) = cnt (ps @ (A @ q # n @ q # B) @ ss)"
    by (rule arg_cong [OF eq])
  then have "cnt ps + cnt n + cnt ss + 2 = 2"
    by (simp only: l r)
  then have "cnt ps = 0" and "cnt n = 0"
    by arith+
  then have ps: "q \<notin> set ps" and n: "q \<notin> set n"
    using cnt_zero by blast+
  have psA: "q \<notin> set (ps @ A)"
    using ps A by simp
  have "A @ q # (m @ q # B) = (ps @ A) @ q # (n @ q # B @ ss)"
    using eq by (simp only: append_assoc append_Cons)
  then have "A = ps @ A \<and> m @ q # B = n @ q # B @ ss"
    by (rule first_mark_split [OF A psA])
  then have "m @ q # B = n @ q # (B @ ss)"
    by (rule conjunct2)
  then have "m = n \<and> B = B @ ss"
    by (rule first_mark_split [OF m n])
  then show ?thesis
    by simp
qed

lemma already_exists_phrase_parts:
  "already_exists_phrase n =
     ''Configuration Checkpoint '' @ CHR 0x27 # n @ CHR 0x27 # '' already exists.''"
  by (simp add: already_exists_phrase_def)

lemma already_exists_match:
  assumes "CHR 0x27 \<notin> set m"
  shows "is_substring (already_exists_phrase n) (already_exists_phrase m) \<longleftrightarrow> n = m"
proof
  assume "n = m"
  then have "already_exists_phrase m = [] @ already_exists_phrase n @ []"
    by simp
  then show "is_substring (already_exists_phrase n) (already_exists_phrase m)"
    unfolding is_substring_iff by (intro exI)
next
  assume "is_substring (already_exists_phrase n) (already_exists_phrase m)"
  then obtain ps ss where eq: "already_exists_phrase m = ps @ already_exists_phrase n @ ss"
    unfolding is_substring_iff by (elim exE)
  have A: "CHR 0x27 \<notin> set ''Configuration Checkpoint ''"
    by simp
  have B: "CHR 0x27 \<notin> set '' already exists.''"
    by simp
  show "n = m"
    by (rule quoted_name_match [OF A B assms])
       (rule eq [unfolded already_exists_phrase_parts])
qed

lemma already_exists_inj: "already_exists_phrase n = already_exists_phrase m \<longleftrightarrow> n = m"
  by (simp add: already_exists_phrase_def)

lemma present_error_detail:
  assumes "api_call e [] (PStr (URI_DOMAIN_LIST e)) GET None = Ok chk"
      and "is_200_OK chk"
      and "configured_domains (resp_data chk) = Ok domains"
      and "PStr domain_name \<in> set domains"
      and "implement_check_mode e (result e) = Ok ()"
      and "api_call e [ApiCall (PStr (URI_DOMAIN_LIST e)) GET None]
             (PStr (str_format e (URI_ACTION e) [domain_name])) POST
             (Some (chkpoint_act_msg ''present'' chkpoint_name)) = Ok create"
      and "is_202_Accepted create"
      and "location_href (resp_data create) = Ok href"
      and "wait_for_action_end e
             [ApiCall (PStr (URI_DOMAIN_LIST e)) GET None,
              ApiCall (PStr (str_format e (URI_ACTION e) [domain_name])) POST
                (Some (chkpoint_act_msg ''present'' chkpoint_name))]
             (str_format e (URI_ACTION e) [domain_name]) href ''present'' = Ok action_result"
      and "api_call e
             [ApiCall (PStr (URI_DOMAIN_LIST e)) GET None,
              ApiCall (PStr (str_format e (URI_ACTION e) [domain_name])) POST
                (Some (chkpoint_act_msg ''present'' chkpoint_name)),
              WaitForActionEnd (str_format e (URI_ACTION e) [domain_name]) href ''present'']
             href GET None = Ok dcr"
      and "is_200_OK dcr"
      and "subscript (resp_data dcr) ''status'' = Ok (PStr ''error'')"
      and "subscript (resp_data dcr) ''error'' = Ok err"
      and "py_in (already_exists_phrase chkpoint_name) err = Ok found"
  shows "chkpoint_main e ''present'' domain_name chkpoint_name =
           (ExitJson
              (if found then
                 AList.update ''changed'' (PBool False)
                   (AList.update ''msg'' (PStr (IMMUTABLE_MESSAGE e))
                   (AList.update ''domain'' (PStr domain_name)
                   (AList.update ''name'' (PStr chkpoint_name) (result e))))
               else
                 AList.update ''failed'' (PBool True)
                   (AList.update ''changed'' (PBool False)
                   (AList.update ''msg''
                      (PStr (general_error_msg e chkpoint_MODULE_FULLNAME ''present''
                               domain_name err))
                   (AList.update ''domain'' (PStr domain_name)
                   (AList.update ''name'' (PStr chkpoint_name) (result e)))))),
            [ApiCall (PStr (URI_DOMAIN_LIST e)) GET None,
             ApiCall (PStr (str_format e (URI_ACTION e) [domain_name])) POST
               (Some (chkpoint_act_msg ''present'' chkpoint_name)),
             WaitForActionEnd (str_format e (URI_ACTION e) [domain_name]) href ''present'',
             ApiCall href GET None])"
proof -
  let ?c1 = "ApiCall (PStr (URI_DOMAIN_LIST e)) GET None"
  let ?tmp = "[(''name'', PStr chkpoint_name), (''domain'', PStr domain_name),
               (''msg'', PNone), (''changed'', PNone), (''failed'', PNone)]"
  have body: "chkpoint_body e ''present'' domain_name chkpoint_name [] =
                chkpoint_present e ''present'' domain_name chkpoint_name ?tmp [?c1]"
    using assms(1-4) by (simp add: chkpoint_body_def Let_def run_simps)
  have branch: "chkpoint_present e ''present'' domain_name chkpoint_name ?tmp [?c1] =
          (Ok (if found then
                 AList.update ''msg'' (PStr (IMMUTABLE_MESSAGE e))
                   (AList.update ''changed'' (PBool False) ?tmp)
               else
                 AList.update ''failed'' (PBool True)
                   (AList.update ''msg''
                      (PStr (general_error_msg e chkpoint_MODULE_FULLNAME ''present''
                               domain_name err))
                   (AList.update ''changed'' (PBool False) ?tmp))),
            [?c1,
             ApiCall (PStr (str_format e (URI_ACTION e) [domain_name])) POST
               (Some (chkpoint_act_msg ''present'' chkpoint_name)),
             WaitForActionEnd (str_format e (URI_ACTION e) [domain_name]) href ''present'',
             ApiCall href GET None])"
    using assms(5-14)
    by (simp add: chkpoint_present_def chkpoint_act_msg_def run_simps)
  show ?thesis
    by (cases found) (simp_all add: chkpoint_main_def finish_def body branch)
qed

text \<open>
  Claim C4, as amended. In the checkpoint module with state \<open>present\<close>, when the final
  detail body of the accepted SaveCheckpoint action arrives with \<open>200 OK\<close> and status
  \<open>error\<close>, and its \<open>error\<close> field is the message
  \<open>"Configuration Checkpoint '<mentioned>' already exists."\<close>, either as the one member of
  a list or as a string whose checkpoint name \<open>mentioned\<close> holds no apostrophe: if
  \<open>mentioned\<close> is the requested checkpoint name, the module exits with the immutable
  message and \<open>changed\<close> false, and does not write \<open>failed\<close>; if it is any other name,
  the module exits with \<open>failed\<close> true, \<open>changed\<close> false and the message
  \<open>GENERAL_ERROR.format(__MODULE_FULLNAME, state, domain_name) + str(ErrorHandler(error))\<close>.
\<close>

theorem already_exists_classified_by_requested_name:
  assumes "api_call e [] (PStr (URI_DOMAIN_LIST e)) GET None = Ok chk"
      and "is_200_OK chk"
      and "configured_domains (resp_data chk) = Ok domains"
      and "PStr domain_name \<in> set domains"
      and "implement_check_mode e (result e) = Ok ()"
      and "api_call e [ApiCall (PStr (URI_DOMAIN_LIST e)) GET None]
             (PStr (str_format e (URI_ACTION e) [domain_name])) POST
             (Some (chkpoint_act_msg ''present'' chkpoint_name)) = Ok create"
      and "is_202_Accepted create"
      and "location_href (resp_data create) = Ok href"
      and "wait_for_action_end e
             [ApiCall (PStr (URI_DOMAIN_LIST e)) GET None,
              ApiCall (PStr (str_format e (URI_ACTION e) [domain_name])) POST
                (Some (chkpoint_act_msg ''present'' chkpoint_name))]
             (str_format e (URI_ACTION e) [domain_name]) href ''present'' = Ok action_result"
      and "api_call e
             [ApiCall (PStr (URI_DOMAIN_LIST e)) GET None,
              ApiCall (PStr (str_format e (URI_ACTION e) [domain_name])) POST
                (Some (chkpoint_act_msg ''present'' chkpoint_name)),
              WaitForActionEnd (str_format e (URI_ACTION e) [domain_name]) href ''present'']
             href GET None = Ok dcr"
      and "is_200_OK dcr"
      and "subscript (resp_data dcr) ''status'' = Ok (PStr ''error'')"
      and "subscript (resp_data dcr) ''error'' = Ok err"
      and "err = PList [PStr (already_exists_phrase mentioned)]
           \<or> err = PStr (already_exists_phrase mentioned) \<and> CHR 0x27 \<notin> set mentioned"
  shows "chkpoint_main e ''present'' domain_name chkpoint_name =
           (ExitJson
              (if mentioned = chkpoint_name then
                 AList.update ''changed'' (PBool False)
                   (AList.update ''msg'' (PStr (IMMUTABLE_MESSAGE e))
                   (AList.update ''domain'' (PStr domain_name)
                   (AList.update ''name'' (PStr chkpoint_name) (result e))))
               else
                 AList.update ''failed'' (PBool True)
                   (AList.update ''changed'' (PBool False)
                   (AList.update ''msg''
                      (PStr (general_error_msg e chkpoint_MODULE_FULLNAME ''present''
                               domain_name err))
                   (AList.update ''domain'' (PStr domain_name)
                   (AList.update ''name'' (PStr chkpoint_name) (result e)))))),
            [ApiCall (PStr (URI_DOMAIN_LIST e)) GET None,
             ApiCall (PStr (str_format e (URI_ACTION e) [domain_name])) POST
               (Some (chkpoint_act_msg ''present'' chkpoint_name)),
             WaitForActionEnd (str_format e (URI_ACTION e) [domain_name]) href ''present'',
             ApiCall href GET None])"
proof -
  have "py_in (already_exists_phrase chkpoint_name) err = Ok (chkpoint_name = mentioned)"
    using assms(14)
  proof
    assume "err = PList [PStr (already_exists_phrase mentioned)]"
    then show ?thesis
      by (simp add: already_exists_inj)
  next
    assume "err = PStr (already_exists_phrase mentioned) \<and> CHR 0x27 \<notin> set mentioned"
    then show ?thesis
      using already_exists_match [of mentioned chkpoint_name] by simp
  qed
  then have found: "py_in (already_exists_phrase chkpoint_name) err =
                      Ok (mentioned = chkpoint_name)"
    by (simp add: eq_commute)
  show ?thesis
    by (rule present_error_detail [OF assms(1-13) found])
qed

theorem already_exists_classified_by_requested_name_witness:
  "chkpoint_main
     (example_env [domains_response, accepted_response,
                   error_detail_response (PList [PStr (already_exists_phrase ''cp1'')])])
     ''present'' ''test'' ''cp1'' =
     (ExitJson [(''changed'', PBool False), (''name'', PStr ''cp1''),
                (''domain'', PStr ''test''), (''msg'', PStr ''Nothing to do.'')],
      [ApiCall (PStr ''/mgmt/domains/config/'') GET None,
       ApiCall (PStr ''/mgmt/actionqueue/test'') POST
         (Some (PDict [(PStr ''SaveCheckpoint'', PDict [(PStr ''ChkName'', PStr ''cp1'')])])),
       WaitForActionEnd ''/mgmt/actionqueue/test'' (PStr ''/mgmt/actionqueue/test/pending/1'')
         ''present'',
       ApiCall (PStr ''/mgmt/actionqueue/test/pending/1'') GET None])
   \<and> chkpoint_main
     (example_env [domains_response, accepted_response,
                   error_detail_response (PStr (already_exists_phrase ''cp1''))])
     ''present'' ''test'' ''cp2'' =
     (ExitJson [(''changed'', PBool False), (''name'', PStr ''cp2''),
                (''domain'', PStr ''test''),
                (''msg'', PStr (''idg_domain_chkpoint-1.0: state present, domain test: ''
                                @ already_exists_phrase ''cp1'')),
                (''failed'', PBool True)],
      [ApiCall (PStr ''/mgmt/domains/config/'') GET None,
       ApiCall (PStr ''/mgmt/actionqueue/test'') POST
         (Some (PDict [(PStr ''SaveCheckpoint'', PDict [(PStr ''ChkName'', PStr ''cp2'')])])),
       WaitForActionEnd ''/mgmt/actionqueue/test'' (PStr ''/mgmt/actionqueue/test/pending/1'')
         ''present'',
       ApiCall (PStr ''/mgmt/actionqueue/test/pending/1'') GET None])"
proof -
  let ?href = "PStr ''/mgmt/actionqueue/test/pending/1''"
  define erra where erra: "erra = PList [PStr (already_exists_phrase ''cp1'')]"
  define errb where errb: "errb = PStr (already_exists_phrase ''cp1'')"
  define ea where ea: "ea = example_env [domains_response, accepted_response,
                                         error_detail_response erra]"
  define eb where eb: "eb = example_env [domains_response, accepted_response,
                                         error_detail_response errb]"
  have b: "is_200_OK domains_response"
    by (simp add: example_simps)
  have c: "configured_domains (resp_data domains_response) =
             Ok [PStr ''default'', PStr ''test'']"
    by (simp add: example_simps bind_res_simps)
  have d: "PStr ''test'' \<in> set [PStr ''default'', PStr ''test'']"
    by simp
  have acc: "is_202_Accepted accepted_response"
    by (simp add: example_simps)
  have href: "location_href (resp_data accepted_response) = Ok ?href"
    by (simp add: example_simps bind_res_simps)
  have det: "is_200_OK (error_detail_response err)"
    "subscript (resp_data (error_detail_response err)) ''status'' = Ok (PStr ''error'')"
    "subscript (resp_data (error_detail_response err)) ''error'' = Ok err" for err
    by (simp_all add: example_simps)
  have vals: "URI_DOMAIN_LIST ea = ''/mgmt/domains/config/''"
    "URI_DOMAIN_LIST eb = ''/mgmt/domains/config/''"
    "str_format ea (URI_ACTION ea) [''test''] = ''/mgmt/actionqueue/test''"
    "str_format eb (URI_ACTION eb) [''test''] = ''/mgmt/actionqueue/test''"
    "IMMUTABLE_MESSAGE ea = ''Nothing to do.''"
    "result ea = [(''changed'', PBool False)]"
    "result eb = [(''changed'', PBool False)]"
    "general_error_msg eb chkpoint_MODULE_FULLNAME ''present'' ''test'' errb =
       ''idg_domain_chkpoint-1.0: state present, domain test: '' @ already_exists_phrase ''cp1''"
    by (simp_all add: ea eb errb example_env_def general_error_msg_def
          chkpoint_MODULE_FULLNAME_def)
  have a: "api_call ea [] (PStr (URI_DOMAIN_LIST ea)) GET None = Ok domains_response"
    "api_call eb [] (PStr (URI_DOMAIN_LIST eb)) GET None = Ok domains_response"
    by (simp_all add: ea eb example_env_def scripted_def)
  have f: "implement_check_mode ea (result ea) = Ok ()"
    "implement_check_mode eb (result eb) = Ok ()"
    by (simp_all add: ea eb example_env_def)
  have post: "api_call ea [ApiCall (PStr (URI_DOMAIN_LIST ea)) GET None]
                (PStr (str_format ea (URI_ACTION ea) [''test''])) POST
                (Some (chkpoint_act_msg ''present'' ''cp1'')) = Ok accepted_response"
    "api_call eb [ApiCall (PStr (URI_DOMAIN_LIST eb)) GET None]
                (PStr (str_format eb (URI_ACTION eb) [''test''])) POST
                (Some (chkpoint_act_msg ''present'' ''cp2'')) = Ok accepted_response"
    by (simp_all add: ea eb example_env_def scripted_def)
  have wait: "wait_for_action_end ea
                [ApiCall (PStr (URI_DOMAIN_LIST ea)) GET None,
                 ApiCall (PStr (str_format ea (URI_ACTION ea) [''test''])) POST
                   (Some (chkpoint_act_msg ''present'' ''cp1''))]
                (str_format ea (URI_ACTION ea) [''test'']) ?href ''present''
              = Ok (PStr ''completed'')"
    "wait_for_action_end eb
                [ApiCall (PStr (URI_DOMAIN_LIST eb)) GET None,
                 ApiCall (PStr (str_format eb (URI_ACTION eb) [''test''])) POST
                   (Some (chkpoint_act_msg ''present'' ''cp2''))]
                (str_format eb (URI_ACTION eb) [''test'']) ?href ''present''
              = Ok (PStr ''completed'')"
    by (simp_all add: ea eb example_env_def)
  have get: "api_call ea
               [ApiCall (PStr (URI_DOMAIN_LIST ea)) GET None,
                ApiCall (PStr (str_format ea (URI_ACTION ea) [''test''])) POST
                  (Some (chkpoint_act_msg ''present'' ''cp1'')),
                WaitForActionEnd (str_format ea (URI_ACTION ea) [''test'']) ?href ''present'']
               ?href GET None = Ok (error_detail_response erra)"
    "api_call eb
               [ApiCall (PStr (URI_DOMAIN_LIST eb)) GET None,
                ApiCall (PStr (str_format eb (URI_ACTION eb) [''test''])) POST
                  (Some (chkpoint_act_msg ''present'' ''cp2'')),
                WaitForActionEnd (str_format eb (URI_ACTION eb) [''test'']) ?href ''present'']
               ?href GET None = Ok (error_detail_response errb)"
    by (simp_all add: ea eb example_env_def scripted_def)
  have ma: "erra = PList [PStr (already_exists_phrase ''cp1'')]
            \<or> erra = PStr (already_exists_phrase ''cp1'') \<and> CHR 0x27 \<notin> set ''cp1''"
    by (simp add: erra)
  have mb: "errb = PList [PStr (already_exists_phrase ''cp1'')]
            \<or> errb = PStr (already_exists_phrase ''cp1'') \<and> CHR 0x27 \<notin> set ''cp1''"
    by (simp add: errb)
  note Ta = already_exists_classified_by_requested_name
              [OF a(1) b c d f(1) post(1) acc href wait(1) get(1) det ma]
  note Tb = already_exists_classified_by_requested_name
              [OF a(2) b c d f(2) post(2) acc href wait(2) get(2) det mb]
  have qa: "chkpoint_main ea ''present'' ''test'' ''cp1'' =
     (ExitJson [(''changed'', PBool False), (''name'', PStr ''cp1''),
                (''domain'', PStr ''test''), (''msg'', PStr ''Nothing to do.'')],
      [ApiCall (PStr ''/mgmt/domains/config/'') GET None,
       ApiCall (PStr ''/mgmt/actionqueue/test'') POST
         (Some (PDict [(PStr ''SaveCheckpoint'', PDict [(PStr ''ChkName'', PStr ''cp1'')])])),
       WaitForActionEnd ''/mgmt/actionqueue/test'' ?href ''present'',
       ApiCall ?href GET None])"
    using Ta by (simp add: vals chkpoint_act_msg_def)
  have qb: "chkpoint_main eb ''present'' ''test'' ''cp2'' =
     (ExitJson [(''changed'', PBool False), (''name'', PStr ''cp2''),
                (''domain'', PStr ''test''),
                (''msg'', PStr (''idg_domain_chkpoint-1.0: state present, domain test: ''
                                @ already_exists_phrase ''cp1'')),
                (''failed'', PBool True)],
      [ApiCall (PStr ''/mgmt/domains/config/'') GET None,
       ApiCall (PStr ''/mgmt/actionqueue/test'') POST
         (Some (PDict [(PStr ''SaveCheckpoint'', PDict [(PStr ''ChkName'', PStr ''cp2'')])])),
       WaitForActionEnd ''/mgmt/actionqueue/test'' ?href ''present'',
       ApiCall ?href GET None])"
    using Tb by (simp add: vals chkpoint_act_msg_def)
  show ?thesis
    using qa qb unfolding ea eb erra errb by (intro conjI)
qed

text \<open>
  The claim as stated fails on a string error field, where \<open>in\<close> is a substring test:
  the device's message for the checkpoint \<open>cp1' already exists.\<close> holds the phrase for the
  requested checkpoint \<open>cp1\<close>, and the module reports the immutable message.
\<close>

theorem already_exists_other_name_counterexample:
  "chkpoint_main
     (example_env [domains_response, accepted_response,
                   error_detail_response
                     (PStr (already_exists_phrase (''cp1'' @ [CHR 0x27] @ '' already exists.'')))])
     ''present'' ''test'' ''cp1'' =
     (ExitJson [(''changed'', PBool False), (''name'', PStr ''cp1''),
                (''domain'', PStr ''test''), (''msg'', PStr ''Nothing to do.'')],
      [ApiCall (PStr ''/mgmt/domains/config/'') GET None,
       ApiCall (PStr ''/mgmt/actionqueue/test'') POST
         (Some (PDict [(PStr ''SaveCheckpoint'', PDict [(PStr ''ChkName'', PStr ''cp1'')])])),
       WaitForActionEnd ''/mgmt/actionqueue/test'' (PStr ''/mgmt/actionqueue/test/pending/1'')
         ''present'',
       ApiCall (PStr ''/mgmt/actionqueue/test/pending/1'') GET None])
   \<and> ''cp1'' @ [CHR 0x27] @ '' already exists.'' \<noteq> ''cp1''"
proof -
  let ?href = "PStr ''/mgmt/actionqueue/test/pending/1''"
  define err where err: "err = PStr (already_exists_phrase (''cp1'' @ [CHR 0x27] @ '' already exists.''))"
  define ea where ea: "ea = example_env [domains_response, accepted_response,
                                         error_detail_response err]"
  have b: "is_200_OK domains_response"
    by (simp add: example_simps)
  have c: "configured_domains (resp_data domains_response) =
             Ok [PStr ''default'', PStr ''test'']"
    by (simp add: example_simps bind_res_simps)
  have d: "PStr ''test'' \<in> set [PStr ''default'', PStr ''test'']"
    by simp
  have acc: "is_202_Accepted accepted_response"
    by (simp add: example_simps)
  have href: "location_href (resp_data accepted_response) = Ok ?href"
    by (simp add: example_simps bind_res_simps)
  have det: "is_200_OK (error_detail_response err)"
    "subscript (resp_data (error_detail_response err)) ''status'' = Ok (PStr ''error'')"
    "subscript (resp_data (error_detail_response err)) ''error'' = Ok err"
    by (simp_all add: example_simps)
  have vals: "URI_DOMAIN_LIST ea = ''/mgmt/domains/config/''"
    "str_format ea (URI_ACTION ea) [''test''] = ''/mgmt/actionqueue/test''"
    "IMMUTABLE_MESSAGE ea = ''Nothing to do.''"
    "result ea = [(''changed'', PBool False)]"
    by (simp_all add: ea example_env_def)
  have a: "api_call ea [] (PStr (URI_DOMAIN_LIST ea)) GET None = Ok domains_response"
    by (simp add: ea example_env_def scripted_def)
  have f: "implement_check_mode ea (result ea) = Ok ()"
    by (simp add: ea example_env_def)
  have post: "api_call ea [ApiCall (PStr (URI_DOMAIN_LIST ea)) GET None]
                (PStr (str_format ea (URI_ACTION ea) [''test''])) POST
                (Some (chkpoint_act_msg ''present'' ''cp1'')) = Ok accepted_response"
    by (simp add: ea example_env_def scripted_def)
  have wait: "wait_for_action_end ea
                [ApiCall (PStr (URI_DOMAIN_LIST ea)) GET None,
                 ApiCall (PStr (str_format ea (URI_ACTION ea) [''test''])) POST
                   (Some (chkpoint_act_msg ''present'' ''cp1''))]
                (str_format ea (URI_ACTION ea) [''test'']) ?href ''present''
              = Ok (PStr ''completed'')"
    by (simp add: ea example_env_def)
  have get: "api_call ea
               [ApiCall (PStr (URI_DOMAIN_LIST ea)) GET None,
                ApiCall (PStr (str_format ea (URI_ACTION ea) [''test''])) POST
                  (Some (chkpoint_act_msg ''present'' ''cp1'')),
                WaitForActionEnd (str_format ea (URI_ACTION ea) [''test'']) ?href ''present'']
               ?href GET None = Ok (error_detail_response err)"
    by (simp add: ea example_env_def scripted_def)
  have "already_exists_phrase (''cp1'' @ [CHR 0x27] @ '' already exists.'') =
          [] @ already_exists_phrase ''cp1'' @ ([CHR 0x27] @ '' already exists.'')"
    by (simp add: already_exists_phrase_def)
  then have "is_substring (already_exists_phrase ''cp1'')
               (already_exists_phrase (''cp1'' @ [CHR 0x27] @ '' already exists.''))"
    unfolding is_substring_iff by (intro exI)
  then have found: "py_in (already_exists_phrase ''cp1'') err = Ok True"
    by (simp add: err)
  have "chkpoint_main ea ''present'' ''test'' ''cp1'' =
     (ExitJson [(''changed'', PBool False), (''name'', PStr ''cp1''),
                (''domain'', PStr ''test''), (''msg'', PStr ''Nothing to do.'')],
      [ApiCall (PStr ''/mgmt/domains/config/'') GET None,
       ApiCall (PStr ''/mgmt/actionqueue/test'') POST
         (Some (PDict [(PStr ''SaveCheckpoint'', PDict [(PStr ''ChkName'', PStr ''cp1'')])])),
       WaitForActionEnd ''/mgmt/actionqueue/test'' ?href ''present'',
       ApiCall ?href GET None])"
    using present_error_detail [OF a b c d f post acc href wait get det found]
    by (simp add: vals chkpoint_act_msg_def)
  then show ?thesis
    unfolding ea err by simp
qed

section \<open>The sections of an import result\<close>

lemma exec_script_results_rule:
  assumes "subscript ir ''exec-script-results'' = Ok sec"
      and "subscript sec ''cfg-result'' = Ok raw"
  shows "(\<not> isinstance_list raw \<longrightarrow>
            exec_script_results_block ir = Ok [PDict [(PStr ''exec-script-results'', raw)]])
       \<and> (\<forall>xs s. raw = PList xs \<longrightarrow> get_status_summary xs = Ok s \<longrightarrow>
            exec_script_results_block ir =
              Ok [PDict [(PStr ''exec-script-results'', summarised xs s)]])
       \<and> (\<forall>xs ex. raw = PList xs \<longrightarrow> get_status_summary xs = Raise ex \<longrightarrow>
            exec_script_results_block ir = Ok [PDict [(PStr ''exec-script-results'', sec)]])"
  using assms
  by (cases raw)
     (simp_all add: exec_script_results_block_def summary_detail_def summarised_def
        bind_res_simps try_except_simps)

lemma imported_files_rule:
  assumes "subscript ir ''imported-files'' = Ok sec"
      and "subscript sec ''file'' = Ok raw"
  shows "(\<not> isinstance_list raw \<longrightarrow>
            imported_files_block ir = Ok [PDict [(PStr ''imported-files'', raw)]])
       \<and> (\<forall>xs s. raw = PList xs \<longrightarrow> get_status_summary xs = Ok s \<longrightarrow>
            imported_files_block ir = Ok [PDict [(PStr ''imported-files'', summarised xs s)]])
       \<and> (\<forall>xs ex. raw = PList xs \<longrightarrow> get_status_summary xs = Raise ex \<longrightarrow>
            imported_files_block ir = Ok [PDict [(PStr ''imported-files'', sec)]])"
  using assms
  by (cases raw)
     (simp_all add: imported_files_block_def summary_detail_def summarised_def
        bind_res_simps try_except_simps)

lemma imported_objects_rule:
  assumes "subscript ir ''imported-objects'' = Ok sec"
      and "subscript sec ''object'' = Ok raw"
  shows "(\<not> isinstance_list raw \<longrightarrow>
            imported_objects_block ir = Ok [PDict [(PStr ''imported-objects'', raw)]])
       \<and> (\<forall>xs s. raw = PList xs \<longrightarrow> get_status_summary xs = Ok s \<longrightarrow>
            imported_objects_block ir =
              Ok [PDict [(PStr ''imported-objects'', summarised xs s)]])
       \<and> (\<forall>xs ex. raw = PList xs \<longrightarrow> get_status_summary xs = Raise ex \<longrightarrow>
            imported_objects_block ir = Ok [PDict [(PStr ''imported-objects'', sec)]])"
  using assms
  by (cases raw)
     (simp_all add: imported_objects_block_def summary_detail_def summarised_def
        bind_res_simps try_except_simps)

text \<open>
  Claim C1, as amended. The same rule holds for each of the three nested collections of an
  import result (\<open>exec-script-results/cfg-result\<close>, \<open>imported-files/file\<close>,
  \<open>imported-objects/object\<close>). When the raw field is not a list, the section reports the
  raw value itself, unchanged: it is not wrapped into a sequence, and it gets no total and
  no summary. When the raw field is a list for which \<open>get_status_summary\<close> returns a
  summary, the section reports the total (the length of the list), the summary, and as
  detail the list itself, in its order. When \<open>get_status_summary\<close> raises on the list,
  the section reports the whole raw section.
\<close>

theorem import_sections_follow_one_rule:
  "\<forall>(block, key, sub) \<in>
      {(exec_script_results_block, ''exec-script-results'', ''cfg-result''),
       (imported_files_block, ''imported-files'', ''file''),
       (imported_objects_block, ''imported-objects'', ''object'')}.
     subscript ir key = Ok sec \<longrightarrow> subscript sec sub = Ok raw \<longrightarrow>
       (\<not> isinstance_list raw \<longrightarrow> block ir = Ok [PDict [(PStr key, raw)]])
       \<and> (\<forall>xs s. raw = PList xs \<longrightarrow> get_status_summary xs = Ok s \<longrightarrow>
            block ir = Ok [PDict [(PStr key, summarised xs s)]])
       \<and> (\<forall>xs ex. raw = PList xs \<longrightarrow> get_status_summary xs = Raise ex \<longrightarrow>
            block ir = Ok [PDict [(PStr key, sec)]])"
  using exec_script_results_rule [of ir sec raw] imported_files_rule [of ir sec raw]
    imported_objects_rule [of ir sec raw]
  by simp

theorem import_sections_follow_one_rule_witness:
  "exec_script_results_block example_import_results =
     Ok [PDict [(PStr ''exec-script-results'', PDict [(PStr ''status'', PStr ''ok'')])]]
   \<and> imported_files_block example_import_results =
     Ok [PDict [(PStr ''imported-files'',
                 summarised example_entries [(PStr ''ok'', 2), (PStr ''error'', 1)])]]"
proof -
  let ?obj = "PDict [(PStr ''status'', PStr ''ok'')]"
  have a1: "subscript example_import_results ''exec-script-results'' =
              Ok (PDict [(PStr ''cfg-result'', ?obj)])"
    by (simp add: example_import_results_def)
  have a2: "subscript (PDict [(PStr ''cfg-result'', ?obj)]) ''cfg-result'' = Ok ?obj"
    by simp
  have a3: "\<not> isinstance_list ?obj"
    by simp
  have b1: "subscript example_import_results ''imported-files'' =
              Ok (PDict [(PStr ''file'', PList example_entries)])"
    by (simp add: example_import_results_def)
  have b2: "subscript (PDict [(PStr ''file'', PList example_entries)]) ''file'' =
              Ok (PList example_entries)"
    by simp
  have b3: "get_status_summary example_entries = Ok [(PStr ''ok'', 2), (PStr ''error'', 1)]"
    by (simp add: example_entries_def get_status_summary_def)
  note Ta = import_sections_follow_one_rule
              [of example_import_results "PDict [(PStr ''cfg-result'', ?obj)]" ?obj]
  note Tb = import_sections_follow_one_rule
              [of example_import_results "PDict [(PStr ''file'', PList example_entries)]"
                  "PList example_entries"]
  have "exec_script_results_block example_import_results =
          Ok [PDict [(PStr ''exec-script-results'', ?obj)]]"
    using Ta a1 a2 a3 by simp
  moreover have "imported_files_block example_import_results =
          Ok [PDict [(PStr ''imported-files'',
                      summarised example_entries [(PStr ''ok'', 2), (PStr ''error'', 1)])]]"
    using Tb b1 b2 b3 by simp
  ultimately show ?thesis
    by (rule conjI)
qed

text \<open>
  The claim as stated fails for a single object: the section holds the object itself, not
  the one-element sequence of the specification's normalisation, neither bare nor with a
  total and a summary.
\<close>

theorem single_object_not_wrapped_counterexample:
  "exec_script_results_block example_import_results =
     Ok [PDict [(PStr ''exec-script-results'', PDict [(PStr ''status'', PStr ''ok'')])]]
   \<and> exec_script_results_block example_import_results \<noteq>
     Ok [PDict [(PStr ''exec-script-results'',
                 PList (spec_normalize (PDict [(PStr ''status'', PStr ''ok'')])))]]
   \<and> exec_script_results_block example_import_results \<noteq>
     Ok [PDict [(PStr ''exec-script-results'',
                 summarised (spec_normalize (PDict [(PStr ''status'', PStr ''ok'')]))
                   [(PStr ''ok'', 1)])]]
   \<and> get_status_summary (spec_normalize (PDict [(PStr ''status'', PStr ''ok'')])) =
     Ok [(PStr ''ok'', 1)]"
  by (simp add: exec_script_results_block_def example_import_results_def spec_normalize_def
        summarised_def get_status_summary_def bind_res_simps try_except_simps)

section \<open>An error in the final detail body\<close>

text \<open>
  Claim C2 fails on the domain-config module with state \<open>reseted\<close>: the final detail
  body of the accepted ResetThisDomain action reports the status \<open>error\<close>, and the module
  exits with \<open>changed\<close> true, the message \<open>Error\<close> and without \<open>failed\<close>.
\<close>

theorem reseted_error_detail_is_reported_as_changed:
  "config_main
     (example_env [domains_response, accepted_response,
                   error_detail_response (PList [PStr ''Reset failed''])])
     example_params ''reseted'' ''test'' =
     (ExitJson [(''changed'', PBool True), (''name'', PStr ''test''),
                (''msg'', PStr ''Error'')],
      [ApiCall (PStr ''/mgmt/domains/config/'') GET None,
       ApiCall (PStr ''/mgmt/actionqueue/test'') POST
         (Some (PDict [(PStr ''ResetThisDomain'', PDict [])])),
       WaitForActionEnd ''/mgmt/actionqueue/test'' (PStr ''/mgmt/actionqueue/test/pending/1'')
         ''reseted'',
       ApiCall (PStr ''/mgmt/actionqueue/test/pending/1'') GET None])"
proof -
  let ?href = "PStr ''/mgmt/actionqueue/test/pending/1''"
  define ea where ea: "ea = example_env [domains_response, accepted_response,
                            error_detail_response (PList [PStr ''Reset failed''])]"
  let ?c1 = "ApiCall (PStr (URI_DOMAIN_LIST ea)) GET None"
  let ?tmp = "[(''name'', PStr ''test''), (''msg'', PNone), (''file'', PNone),
               (''changed'', PNone), (''failed'', PNone)]"
  have vals: "URI_DOMAIN_LIST ea = ''/mgmt/domains/config/''"
    "str_format ea (URI_ACTION ea) [''test''] = ''/mgmt/actionqueue/test''"
    "result ea = [(''changed'', PBool False)]"
    "implement_check_mode ea = (\<lambda>r. Ok ())"
    by (simp_all add: ea example_env_def)
  have calls: "api_call ea [] (PStr ''/mgmt/domains/config/'') GET None = Ok domains_response"
    "api_call ea [ApiCall (PStr ''/mgmt/domains/config/'') GET None]
       (PStr ''/mgmt/actionqueue/test'') POST
       (Some (PDict [(PStr ''ResetThisDomain'', PDict [])])) = Ok accepted_response"
    "wait_for_action_end ea
       [ApiCall (PStr ''/mgmt/domains/config/'') GET None,
        ApiCall (PStr ''/mgmt/actionqueue/test'') POST
          (Some (PDict [(PStr ''ResetThisDomain'', PDict [])]))]
       ''/mgmt/actionqueue/test'' ?href ''reseted'' = Ok (PStr ''completed'')"
    "api_call ea
       [ApiCall (PStr ''/mgmt/domains/config/'') GET None,
        ApiCall (PStr ''/mgmt/actionqueue/test'') POST
          (Some (PDict [(PStr ''ResetThisDomain'', PDict [])])),
        WaitForActionEnd ''/mgmt/actionqueue/test'' ?href ''reseted'']
       ?href GET None = Ok (error_detail_response (PList [PStr ''Reset failed'']))"
    by (simp_all add: ea example_env_def scripted_def)
  have facts: "is_200_OK domains_response"
    "configured_domains (resp_data domains_response) = Ok [PStr ''default'', PStr ''test'']"
    "is_202_Accepted accepted_response"
    "\<not> is_200_OK accepted_response"
    "location_href (resp_data accepted_response) = Ok ?href"
    "is_200_OK (error_detail_response (PList [PStr ''Reset failed'']))"
    "subscript (resp_data (error_detail_response (PList [PStr ''Reset failed''])))
       ''status'' = Ok (PStr ''error'')"
    by (simp_all add: example_simps bind_res_simps)
  have cap: "capitalize (PStr ''error'') = Ok (PStr ''Error'')"
    by code_simp
  have "config_main ea example_params ''reseted'' ''test'' =
     (ExitJson [(''changed'', PBool True), (''name'', PStr ''test''),
                (''msg'', PStr ''Error'')],
      [ApiCall (PStr ''/mgmt/domains/config/'') GET None,
       ApiCall (PStr ''/mgmt/actionqueue/test'') POST
         (Some (PDict [(PStr ''ResetThisDomain'', PDict [])])),
       WaitForActionEnd ''/mgmt/actionqueue/test'' ?href ''reseted'',
       ApiCall ?href GET None])"
    by (simp add: config_main_def finish_def config_body_def Let_def config_reseted_def
          run_simps vals calls facts cap del: capitalize.simps)
  then show ?thesis
    unfolding ea .
qed

end
